theory Spec2Isabelle
  imports Complex_Main "HOL-Library.Sublist" "HOL-Library.AList"
begin

section \<open>Strings as the services use them\<close>

text \<open>
  Transcripts and keywords are ASCII strings. \<open>String.prototype.toLowerCase\<close> maps the
  letters A to Z to a to z and leaves every other ASCII character alone; characters
  beyond ASCII are outside this model (they are left unchanged here).
\<close>

definition toLowerChar :: "char \<Rightarrow> char" where
  "toLowerChar c =
     (case map_of (zip ''ABCDEFGHIJKLMNOPQRSTUVWXYZ'' ''abcdefghijklmnopqrstuvwxyz'') c of
        Some l \<Rightarrow> l
      | None \<Rightarrow> c)"

definition toLowerCase :: "string \<Rightarrow> string" where
  "toLowerCase s = map toLowerChar s"

text \<open>\<open>s.startsWith(k)\<close> and \<open>s.includes(k)\<close>: \<open>k\<close> occurs in \<open>s\<close> as a contiguous run.\<close>

fun startsWith :: "string \<Rightarrow> string \<Rightarrow> bool" where
  "startsWith s [] = True"
| "startsWith [] (k # ks) = False"
| "startsWith (c # cs) (k # ks) = (if c = k then startsWith cs ks else False)"

fun includesStr :: "string \<Rightarrow> string \<Rightarrow> bool" where
  "includesStr [] k = (k = [])"
| "includesStr (c # cs) k = (if startsWith (c # cs) k then True else includesStr cs k)"

section \<open>HVACIntelligenceService: the intent classifier\<close>

datatype CallType =
  EMERGENCY_CALL | SERVICE_REQUEST | APPOINTMENT_BOOKING | GENERAL_INQUIRY | PRICE_ESTIMATE

text \<open>
  The field \<open>emergencyKeywords\<close>; \<open>Object.values\<close> walks its five categories in the
  order they are written: heating, cooling, plumbing, electrical, general.
\<close>

definition emergencyKeywords :: "string list list" where
  "emergencyKeywords =
    [ [''no heat'', ''heat not working'', ''furnace not working'', ''boiler not working'',
       ''heat pump not working'', ''cold house'', ''freezing'', ''furnace making noise'',
       ''gas smell'', ''carbon monoxide'', ''furnace won't start'', ''pilot light out'',
       ''heater broken'', ''no hot air'', ''thermostat not working''],
      [''no ac'', ''air conditioning not working'', ''ac not working'', ''no cold air'',
       ''air conditioner broken'', ''ac unit not working'', ''hot house'', ''overheating'',
       ''ac making noise'', ''ac leaking water'', ''compressor not working'',
       ''fan not working'', ''ac won't start'', ''condenser not working''],
      [''water leak'', ''flooding'', ''pipe burst'', ''water damage'', ''water everywhere'',
       ''basement flooding'', ''pipe leaking'', ''water heater leaking'', ''sewage backup'',
       ''toilet overflowing'', ''drain backing up''],
      [''electrical smell'', ''burning smell'', ''sparks'', ''electrical fire'', ''power out'',
       ''breaker tripping'', ''electrical emergency'', ''wires sparking'', ''outlet smoking'',
       ''electrical shock''],
      [''emergency'', ''urgent'', ''asap'', ''right now'', ''immediately'', ''help'',
       ''broken'', ''not working'', ''stopped working'', ''emergency service''] ]"

text \<open>
  \<open>detectEmergency\<close>: two nested loops, the inner one returning \<open>true\<close> at the first
  keyword the lower-cased transcript contains.
\<close>

fun keywordLoop :: "string \<Rightarrow> string list \<Rightarrow> bool" where
  "keywordLoop lowerTranscript [] = False"
| "keywordLoop lowerTranscript (keyword # rest) =
     (if includesStr lowerTranscript keyword then True else keywordLoop lowerTranscript rest)"

fun categoryLoop :: "string \<Rightarrow> string list list \<Rightarrow> bool" where
  "categoryLoop lowerTranscript [] = False"
| "categoryLoop lowerTranscript (category # rest) =
     (if keywordLoop lowerTranscript category then True else categoryLoop lowerTranscript rest)"

definition detectEmergency :: "string \<Rightarrow> bool" where
  "detectEmergency transcript = categoryLoop (toLowerCase transcript) emergencyKeywords"

definition appointmentKeywords :: "string list" where
  "appointmentKeywords =
    [''appointment'', ''schedule'', ''book'', ''visit'', ''come out'',
     ''service call'', ''technician'', ''when can you'', ''available'']"

definition priceKeywords :: "string list" where
  "priceKeywords =
    [''cost'', ''price'', ''estimate'', ''quote'', ''how much'', ''fee'',
     ''charge'', ''rate'', ''pricing'', ''affordable'', ''cheap'', ''expensive'']"

definition serviceKeywords :: "string list" where
  "serviceKeywords =
    [''repair'', ''fix'', ''maintenance'', ''service'', ''install'', ''replace'',
     ''tune-up'', ''cleaning'', ''inspection'', ''hvac'', ''air conditioner'',
     ''furnace'', ''heat pump'', ''thermostat'']"

text \<open>\<open>keywords.some(keyword => transcript.includes(keyword))\<close>\<close>

definition containsAppointmentKeywords :: "string \<Rightarrow> bool" where
  "containsAppointmentKeywords transcript = list_ex (includesStr transcript) appointmentKeywords"

definition containsPriceKeywords :: "string \<Rightarrow> bool" where
  "containsPriceKeywords transcript = list_ex (includesStr transcript) priceKeywords"

definition containsServiceKeywords :: "string \<Rightarrow> bool" where
  "containsServiceKeywords transcript = list_ex (includesStr transcript) serviceKeywords"

text \<open>
  The reading of "the text matches a vocabulary": some keyword of the list occurs in the
  lower-cased text as a contiguous run of characters.
\<close>

definition mentions :: "string \<Rightarrow> string list \<Rightarrow> bool" where
  "mentions transcript keywords = (\<exists>k \<in> set keywords. sublist k (toLowerCase transcript))"

text \<open>
  Case-insensitive occurrence, said without the code's lower-casing: a character is the
  same letter as another when they are equal or one is the capital of the other, and a
  keyword occurs in a text when some contiguous run of the text has the keyword's
  letters, in either case.
\<close>

definition capitalLetters :: string where
  "capitalLetters = ''ABCDEFGHIJKLMNOPQRSTUVWXYZ''"

definition smallLetters :: string where
  "smallLetters = ''abcdefghijklmnopqrstuvwxyz''"

definition sameLetter :: "char \<Rightarrow> char \<Rightarrow> bool" where
  "sameLetter c d =
     (c = d \<or> (c, d) \<in> set (zip capitalLetters smallLetters)
            \<or> (d, c) \<in> set (zip capitalLetters smallLetters))"

definition occursIgnoringCase :: "string \<Rightarrow> string \<Rightarrow> bool" where
  "occursIgnoringCase keyword txt =
     (\<exists>w. sublist w txt \<and> list_all2 sameLetter w keyword)"

definition matchesCategory :: "string \<Rightarrow> string list \<Rightarrow> bool" where
  "matchesCategory txt keywords = (\<exists>k \<in> set keywords. occursIgnoringCase k txt)"

definition classifyCallType :: "string \<Rightarrow> CallType" where
  "classifyCallType transcript =
     (let lowerTranscript = toLowerCase transcript in
      if detectEmergency transcript then EMERGENCY_CALL
      else if containsAppointmentKeywords lowerTranscript then APPOINTMENT_BOOKING
      else if containsPriceKeywords lowerTranscript then PRICE_ESTIMATE
      else if containsServiceKeywords lowerTranscript then SERVICE_REQUEST
      else GENERAL_INQUIRY)"

text \<open>
  \<open>extractServiceType\<close>: \<open>Object.entries(serviceMap)\<close> walks the seven categories in
  the order they are written, pushing each one that has a keyword in the transcript.
\<close>

definition serviceMap :: "(string \<times> string list) list" where
  "serviceMap =
    [ (''heating'', [''heat'', ''furnace'', ''boiler'', ''heating'', ''heater'']),
      (''cooling'', [''ac'', ''air conditioning'', ''cooling'', ''air conditioner'', ''central air'']),
      (''heat_pump'', [''heat pump'']),
      (''thermostat'', [''thermostat'']),
      (''ductwork'', [''duct'', ''ductwork'', ''vents'']),
      (''maintenance'', [''tune-up'', ''maintenance'', ''cleaning'', ''service'']),
      (''installation'', [''install'', ''new'', ''replacement'']) ]"

fun serviceLoop :: "string \<Rightarrow> (string \<times> string list) list \<Rightarrow> string list \<Rightarrow> string list" where
  "serviceLoop lowerTranscript [] services = services"
| "serviceLoop lowerTranscript ((service, keywords) # rest) services =
     serviceLoop lowerTranscript rest
       (if list_ex (includesStr lowerTranscript) keywords then services @ [service] else services)"

definition extractServiceType :: "string \<Rightarrow> string list" where
  "extractServiceType transcript =
     (let services = serviceLoop (toLowerCase transcript) serviceMap [] in
      if length services > 0 then services else [''general_hvac''])"

definition serviceCategories :: "string list" where
  \<comment> \<open>The service types: what \<open>extractServiceType\<close> can return.\<close>
  "serviceCategories = ''general_hvac'' # map fst serviceMap"

subsection \<open>Price estimation\<close>

text \<open>
  \<open>basePrices\<close> is an object literal, and \<open>basePrices[serviceName]\<close> is an ordinary
  property read: it finds the six entries written in the literal, and it also finds the
  members every object inherits from \<open>Object.prototype\<close> (functions, and for
  \<open>__proto__\<close> the prototype object itself). Those inherited members are truthy and
  have no \<open>min\<close> and no \<open>max\<close>.
\<close>

datatype PriceProperty = PriceEntry int int | InheritedMember | Undefined

definition basePrices :: "(string \<times> (int \<times> int)) list" where
  "basePrices =
    [ (''heating'', (150, 800)),
      (''cooling'', (125, 600)),
      (''thermostat'', (200, 400)),
      (''maintenance'', (125, 250)),
      (''installation'', (2000, 8000)),
      (''general_hvac'', (125, 500)) ]"

definition objectPrototypeMembers :: "string list" where
  "objectPrototypeMembers =
    [''constructor'', ''__defineGetter__'', ''__defineSetter__'', ''hasOwnProperty'',
     ''__lookupGetter__'', ''__lookupSetter__'', ''isPrototypeOf'', ''propertyIsEnumerable'',
     ''toString'', ''valueOf'', ''__proto__'', ''toLocaleString'']"

definition basePricesGet :: "string \<Rightarrow> PriceProperty" where
  "basePricesGet name =
     (case map_of basePrices name of
        Some (lo, hi) \<Rightarrow> PriceEntry lo hi
      | None \<Rightarrow> if name \<in> set objectPrototypeMembers then InheritedMember else Undefined)"

text \<open>
  \<open>Math.round\<close> rounds to the nearest integer, a half upwards. The products below are
  integers times 1, 1.25, 1.5 or 1.875, all exact in binary floating point, so rational
  arithmetic computes what the code computes. A number is \<open>None\<close> when it is \<open>NaN\<close>.
\<close>

definition mathRound :: "rat \<Rightarrow> int" where
  "mathRound x = \<lfloor>x + 1 / 2\<rfloor>"

definition digitChar :: "nat \<Rightarrow> char" where
  "digitChar d = ''0123456789'' ! d"

function showNat :: "nat \<Rightarrow> string" where
  "showNat n = (if n < 10 then [digitChar n] else showNat (n div 10) @ [digitChar (n mod 10)])"
  by pat_completeness auto
termination
  by (relation "measure (\<lambda>n. n)") auto

declare showNat.simps [simp del]

definition numberToString :: "int option \<Rightarrow> string" where
  "numberToString x =
     (case x of
        None \<Rightarrow> ''NaN''
      | Some n \<Rightarrow> if n < 0 then ''-'' @ showNat (nat (- n)) else showNat (nat n))"

text \<open>\<open>serviceName.replace('_', ' ')\<close> with a string pattern replaces the first underscore only.\<close>

fun replaceUnderscore :: "string \<Rightarrow> string" where
  "replaceUnderscore [] = []"
| "replaceUnderscore (c # cs) = (if c = CHR ''_'' then CHR '' '' # cs else c # replaceUnderscore cs)"

definition pickServiceName :: "string list \<Rightarrow> string" where
  \<comment> \<open>\<open>serviceType[0] || 'general_hvac'\<close>: a missing first element and the empty string are falsy.\<close>
  "pickServiceName serviceType =
     (case serviceType of
        [] \<Rightarrow> ''general_hvac''
      | first # _ \<Rightarrow> if first = [] then ''general_hvac'' else first)"

definition pickBasePrice :: "string \<Rightarrow> PriceProperty" where
  \<comment> \<open>\<open>basePrices[serviceName] || basePrices.general_hvac\<close>\<close>
  "pickBasePrice serviceName =
     (case basePricesGet serviceName of
        Undefined \<Rightarrow> PriceEntry 125 500
      | found \<Rightarrow> found)"

definition surchargeMultiplier :: "bool \<Rightarrow> bool \<Rightarrow> rat" where
  "surchargeMultiplier isEmergency afterHours =
     (let multiplier = 1;
          multiplier = (if isEmergency then multiplier * (3 / 2) else multiplier);
          multiplier = (if afterHours then multiplier * (5 / 4) else multiplier)
      in multiplier)"

definition estimatedRange :: "string list \<Rightarrow> bool \<Rightarrow> bool \<Rightarrow> int option \<times> int option" where
  \<comment> \<open>\<open>estimatedMin\<close> and \<open>estimatedMax\<close>; \<open>undefined * multiplier\<close> is \<open>NaN\<close>.\<close>
  "estimatedRange serviceType isEmergency afterHours =
     (let multiplier = surchargeMultiplier isEmergency afterHours in
      case pickBasePrice (pickServiceName serviceType) of
        PriceEntry lo hi \<Rightarrow>
          (Some (mathRound (of_int lo * multiplier)), Some (mathRound (of_int hi * multiplier)))
      | _ \<Rightarrow> (None, None))"

definition estimateServicePrice :: "string list \<Rightarrow> bool \<Rightarrow> bool \<Rightarrow> string" where
  "estimateServicePrice serviceType isEmergency afterHours =
     (let serviceName = pickServiceName serviceType;
          (estimatedMin, estimatedMax) = estimatedRange serviceType isEmergency afterHours;
          priceText = ''For '' @ replaceUnderscore serviceName @ '' service, our typical range is $''
                      @ numberToString estimatedMin @ ''-$'' @ numberToString estimatedMax;
          priceText = (if isEmergency then priceText @ '' (emergency service rates apply)''
                       else priceText);
          priceText = (if afterHours then priceText @ '' (after-hours rates apply)''
                       else priceText)
      in priceText @ ''. The final price depends on the specific issue and parts needed. We provide upfront pricing before any work begins.'')"

section \<open>Dates\<close>

text \<open>
  A \<open>Date\<close> is its time value: milliseconds since the epoch, read on a local clock that
  has a fixed offset from UTC taken as zero (no daylight-saving shift falls inside the
  days considered). Under that reading a day has 86400000 milliseconds,
  \<open>setDate(getDate() + k)\<close> adds \<open>k\<close> days, \<open>setMinutes(getMinutes() + k)\<close> adds \<open>k\<close>
  minutes, and 1 January 1970 was a Thursday (\<open>getDay() = 4\<close>).
\<close>

type_synonym Date = int

definition msPerMinute :: int where "msPerMinute = 60000"
definition msPerHour :: int where "msPerHour = 3600000"
definition msPerDay :: int where "msPerDay = 86400000"

definition startOfDay :: "Date \<Rightarrow> Date" where
  "startOfDay d = d - d mod msPerDay"

definition setHours :: "Date \<Rightarrow> int \<Rightarrow> Date" where
  \<comment> \<open>\<open>d.setHours(h, 0, 0, 0)\<close>\<close>
  "setHours d h = startOfDay d + h * msPerHour"

definition addDays :: "Date \<Rightarrow> int \<Rightarrow> Date" where
  \<comment> \<open>\<open>d.setDate(d.getDate() + k)\<close>\<close>
  "addDays d k = d + k * msPerDay"

definition getDay :: "Date \<Rightarrow> int" where
  "getDay d = (d div msPerDay + 4) mod 7"

definition getHours :: "Date \<Rightarrow> int" where
  "getHours d = (d mod msPerDay) div msPerHour"

definition getMinutes :: "Date \<Rightarrow> int" where
  "getMinutes d = (d mod msPerHour) div msPerMinute"

definition sqlDATE :: "Date \<Rightarrow> int" where
  \<comment> \<open>SQL \<open>DATE(ts)\<close>: the calendar day, as a day number.\<close>
  "sqlDATE d = d div msPerDay"

subsection \<open>Business hours\<close>

record TimeSlot =
  open_str :: string
  close_str :: string
  isClosed :: bool

record BusinessHours =
  sunday :: TimeSlot
  monday :: TimeSlot
  tuesday :: TimeSlot
  wednesday :: TimeSlot
  thursday :: TimeSlot
  friday :: TimeSlot
  saturday :: TimeSlot

definition hoursOfDay :: "BusinessHours \<Rightarrow> int \<Rightarrow> TimeSlot" where
  \<comment> \<open>\<open>businessHours[['sunday', ..., 'saturday'][now.getDay()]]\<close>\<close>
  "hoursOfDay businessHours dayIndex =
     (if dayIndex = 0 then sunday businessHours
      else if dayIndex = 1 then monday businessHours
      else if dayIndex = 2 then tuesday businessHours
      else if dayIndex = 3 then wednesday businessHours
      else if dayIndex = 4 then thursday businessHours
      else if dayIndex = 5 then friday businessHours
      else saturday businessHours)"

text \<open>\<open>s.split(c)\<close> for a one-character separator: always at least one piece.\<close>

fun splitOn :: "char \<Rightarrow> string \<Rightarrow> string list" where
  "splitOn sep [] = [[]]"
| "splitOn sep (c # cs) =
     (if c = sep then [] # splitOn sep cs
      else (case splitOn sep cs of
              piece # pieces \<Rightarrow> (c # piece) # pieces
            | [] \<Rightarrow> [[c]]))"

definition isDigit :: "char \<Rightarrow> bool" where
  "isDigit c = (c \<in> set ''0123456789'')"

definition digitValue :: "char \<Rightarrow> int" where
  "digitValue c = (case map_of (zip ''0123456789'' [0, 1, 2, 3, 4, 5, 6, 7, 8, 9]) c of
                     Some v \<Rightarrow> v | None \<Rightarrow> 0)"

text \<open>
  \<open>Number(s)\<close> on the strings a time of day is written with: the empty string is 0, a
  run of decimal digits is its value. Every other string is \<open>NaN\<close> here (\<open>None\<close>);
  signs, fractions, exponents, hexadecimal and surrounding blanks, which \<open>Number\<close>
  also reads, are not modelled, and the results below are stated for strings that
  parse to a number in this model.
\<close>

definition Number :: "string \<Rightarrow> int option" where
  "Number s =
     (if list_all isDigit s then Some (foldl (\<lambda>acc c. acc * 10 + digitValue c) 0 s) else None)"

definition parseTime :: "string \<Rightarrow> int option" where
  "parseTime timeString =
     (let parts = splitOn CHR '' '' timeString;
          time = hd parts;
          period = (if length parts > 1 then Some (parts ! 1) else None);
          fields = map Number (splitOn CHR '':'' time);
          hours = hd fields;
          minutes = (if length fields > 1 then fields ! 1 else None);
          hour24 = hours;
          hour24 = (if period = Some ''PM'' \<and> hours \<noteq> Some 12
                    then map_option (\<lambda>h. h + 12) hour24 else hour24);
          hour24 = (if period = Some ''AM'' \<and> hours = Some 12 then Some 0 else hour24)
      in case (hour24, minutes) of
           (Some h, Some m) \<Rightarrow> Some (h * 100 + m)
         | _ \<Rightarrow> None)"

definition numLess :: "int option \<Rightarrow> int option \<Rightarrow> bool" where
  \<comment> \<open>\<open>a < b\<close> on numbers: false as soon as one side is \<open>NaN\<close>.\<close>
  "numLess a b = (case (a, b) of (Some x, Some y) \<Rightarrow> x < y | _ \<Rightarrow> False)"

definition currentTime :: "Date \<Rightarrow> int" where
  "currentTime now = getHours now * 100 + getMinutes now"

definition isAfterHours :: "BusinessHours \<Rightarrow> Date \<Rightarrow> bool" where
  "isAfterHours businessHours now =
     (let todayHours = hoursOfDay businessHours (getDay now) in
      if isClosed todayHours then True
      else
        let openTime = parseTime (open_str todayHours);
            closeTime = parseTime (close_str todayHours)
        in numLess (Some (currentTime now)) openTime \<or> numLess closeTime (Some (currentTime now)))"


section \<open>AppointmentService: the slot allocator\<close>

datatype Priority = LOW | MEDIUM | HIGH | EMERGENCY

datatype AppointmentStatus = SCHEDULED | CONFIRMED | IN_PROGRESS | COMPLETED | CANCELLED

text \<open>
  The columns of table \<open>appointments\<close> that the allocator reads. \<open>estimated_duration\<close>
  is an SQL INTEGER, in minutes; the status is one of the values of \<open>AppointmentStatus\<close>,
  the only ones the service writes.
\<close>

record AppointmentRow =
  company_id :: string
  scheduled_date :: Date
  estimated_duration :: int
  appt_status :: AppointmentStatus

definition isActive :: "AppointmentRow \<Rightarrow> bool" where
  \<comment> \<open>\<open>status NOT IN ('cancelled', 'completed')\<close>\<close>
  "isActive appt = (appt_status appt \<noteq> CANCELLED \<and> appt_status appt \<noteq> COMPLETED)"

definition existingAppointments :: "AppointmentRow list \<Rightarrow> string \<Rightarrow> Date \<Rightarrow> AppointmentRow list" where
  \<comment> \<open>The SELECT of \<open>getAvailableSlots\<close>, with its ORDER BY.\<close>
  "existingAppointments appointments companyId date =
     sort_key scheduled_date
       (filter (\<lambda>appt. company_id appt = companyId
                      \<and> sqlDATE (scheduled_date appt) = sqlDATE date
                      \<and> isActive appt) appointments)"

definition startsInside :: "Date \<Rightarrow> Date \<Rightarrow> AppointmentRow \<Rightarrow> bool" where
  "startsInside time slotEnd appt =
     (let apptStart = scheduled_date appt;
          apptEnd = apptStart + estimated_duration appt * 60000
      in time \<ge> apptStart \<and> time < apptEnd)"

definition endsInside :: "Date \<Rightarrow> Date \<Rightarrow> AppointmentRow \<Rightarrow> bool" where
  "endsInside time slotEnd appt =
     (let apptStart = scheduled_date appt;
          apptEnd = apptStart + estimated_duration appt * 60000
      in slotEnd > apptStart \<and> slotEnd \<le> apptEnd)"

definition containsAppt :: "Date \<Rightarrow> Date \<Rightarrow> AppointmentRow \<Rightarrow> bool" where
  "containsAppt time slotEnd appt =
     (let apptStart = scheduled_date appt;
          apptEnd = apptStart + estimated_duration appt * 60000
      in time \<le> apptStart \<and> slotEnd \<ge> apptEnd)"

definition hasConflict :: "Date \<Rightarrow> Date \<Rightarrow> AppointmentRow list \<Rightarrow> bool" where
  \<comment> \<open>\<open>existingAppointments.rows.some(appt => ...)\<close>\<close>
  "hasConflict time slotEnd rows =
     list_ex (\<lambda>appt. startsInside time slotEnd appt
                    \<or> endsInside time slotEnd appt
                    \<or> containsAppt time slotEnd appt) rows"

definition slotInterval :: int where "slotInterval = 30"

text \<open>The \<open>for\<close> loop of \<open>getAvailableSlots\<close>, with \<open>slots\<close> as the accumulator.\<close>

function slotLoop :: "Date \<Rightarrow> Date \<Rightarrow> int \<Rightarrow> AppointmentRow list \<Rightarrow> Date list \<Rightarrow> Date list" where
  "slotLoop time endOfDay duration rows slots =
     (if time < endOfDay then
        slotLoop (time + slotInterval * msPerMinute) endOfDay duration rows
          (if \<not> hasConflict time (time + duration * 60000) rows then slots @ [time] else slots)
      else slots)"
  by pat_completeness auto
termination
  by (relation "measure (\<lambda>(time, endOfDay, duration, rows, slots). nat (endOfDay - time))")
     (auto simp: slotInterval_def msPerMinute_def)

declare slotLoop.simps [simp del]

definition getAvailableSlots :: "AppointmentRow list \<Rightarrow> string \<Rightarrow> Date \<Rightarrow> int \<Rightarrow> Date list" where
  "getAvailableSlots appointments companyId date duration =
     slotLoop (setHours date 8) (setHours date 17) duration
       (existingAppointments appointments companyId date) []"

definition nextHour :: "Date \<Rightarrow> Date" where
  \<comment> \<open>\<open>nextHour.setMinutes(0, 0, 0); nextHour.setHours(nextHour.getHours() + 1)\<close>\<close>
  "nextHour now = (now - now mod msPerHour) + msPerHour"

definition findEmergencySlot :: "AppointmentRow list \<Rightarrow> string \<Rightarrow> Date \<Rightarrow> Date option" where
  "findEmergencySlot appointments companyId now =
     (let emergencySlots = getAvailableSlots appointments companyId now 120;
          suitableSlots = filter (\<lambda>slot. slot \<ge> nextHour now) emergencySlots
      in case suitableSlots of
           [] \<Rightarrow> None
         | slot # _ \<Rightarrow> Some slot)"

text \<open>
  The day-by-day loop of \<open>getNextAvailableSlot\<close>; \<open>None\<close> when it runs to its end
  without returning. The clock is read once: every \<open>new Date()\<close> of one call is \<open>now\<close>.
\<close>

function dayLoop :: "AppointmentRow list \<Rightarrow> string \<Rightarrow> Date \<Rightarrow> int \<Rightarrow> Date option" where
  "dayLoop appointments companyId now daysAhead =
     (if daysAhead < 14 then
        (let checkDate = addDays now daysAhead in
         if getDay checkDate = 0 then dayLoop appointments companyId now (daysAhead + 1)
         else
           (case getAvailableSlots appointments companyId checkDate 60 of
              slot # _ \<Rightarrow> Some slot
            | [] \<Rightarrow> dayLoop appointments companyId now (daysAhead + 1)))
      else None)"
  by pat_completeness auto
termination
  by (relation "measure (\<lambda>(appointments, companyId, now, daysAhead). nat (14 - daysAhead))") auto

declare dayLoop.simps [simp del]

definition fallbackSlot :: "Date \<Rightarrow> Date" where
  "fallbackSlot now = setHours (addDays now 14) 9"

definition standardSearch :: "AppointmentRow list \<Rightarrow> string \<Rightarrow> Date \<Rightarrow> Date" where
  "standardSearch appointments companyId now =
     (case dayLoop appointments companyId now 0 of
        Some slot \<Rightarrow> slot
      | None \<Rightarrow> fallbackSlot now)"

definition getNextAvailableSlot :: "AppointmentRow list \<Rightarrow> string \<Rightarrow> Priority \<Rightarrow> Date \<Rightarrow> Date" where
  "getNextAvailableSlot appointments companyId priority now =
     (if priority = EMERGENCY then
        (case findEmergencySlot appointments companyId now of
           Some emergencySlot \<Rightarrow> emergencySlot
         | None \<Rightarrow> standardSearch appointments companyId now)
      else standardSearch appointments companyId now)"

section \<open>CallMonitorService: the call session tracker\<close>

datatype CallStatus = ringing | answered | in_progress | ending

datatype Sentiment = positive | neutral | negative

text \<open>
  \<open>updateCall\<close> copies an arbitrary \<open>Partial<ActiveCall>\<close> into a session, and a
  property of a \<open>Partial\<close> may be present with the value \<open>undefined\<close>. So at run time a
  field of a session holds a value of its type or \<open>undefined\<close> (\<open>None\<close>). The one
  exception is \<open>startTime\<close>, which is a \<open>Date\<close> throughout: with \<open>startTime\<close>
  undefined, \<open>updateCall\<close> and \<open>endCall\<close> throw at \<open>call.startTime.getTime()\<close>, and
  such sessions are left out. The awaited database statements are taken to resolve.
\<close>

record ActiveCall =
  call_id :: "string option"
  companyId :: "string option"
  customerPhone :: "string option"
  status :: "CallStatus option"
  startTime :: Date
  duration :: "int option"
  isEmergency :: "bool option"
  transcript :: "string option"
  sentiment :: "Sentiment option"

text \<open>
  A property of \<open>Partial<ActiveCall>\<close>: not there, there with the value \<open>undefined\<close>,
  or there with a value of its type. \<open>startTime\<close> alone is either not there or a
  \<open>Date\<close>, for the reason given above.
\<close>

datatype 'a Partial = NotSet | SetUndefined | SetTo 'a

record CallUpdates =
  upd_id :: "string Partial"
  upd_companyId :: "string Partial"
  upd_customerPhone :: "string Partial"
  upd_status :: "CallStatus Partial"
  upd_startTime :: "Date option"
  upd_duration :: "int Partial"
  upd_isEmergency :: "bool Partial"
  upd_transcript :: "string Partial"
  upd_sentiment :: "Sentiment Partial"

definition noUpdates :: CallUpdates where
  "noUpdates = \<lparr> upd_id = NotSet, upd_companyId = NotSet, upd_customerPhone = NotSet,
     upd_status = NotSet, upd_startTime = None, upd_duration = NotSet, upd_isEmergency = NotSet,
     upd_transcript = NotSet, upd_sentiment = NotSet \<rparr>"

definition assignProperty :: "'a Partial \<Rightarrow> 'a option \<Rightarrow> 'a option" where
  \<comment> \<open>A property that is there overwrites the field, also with \<open>undefined\<close>.\<close>
  "assignProperty new old =
     (case new of NotSet \<Rightarrow> old | SetUndefined \<Rightarrow> None | SetTo v \<Rightarrow> Some v)"

definition orKeep :: "'a option \<Rightarrow> 'a \<Rightarrow> 'a" where
  "orKeep new old = (case new of Some v \<Rightarrow> v | None \<Rightarrow> old)"

definition objectAssign :: "ActiveCall \<Rightarrow> CallUpdates \<Rightarrow> ActiveCall" where
  \<comment> \<open>\<open>Object.assign(call, updates)\<close>\<close>
  "objectAssign call updates =
     \<lparr> call_id = assignProperty (upd_id updates) (call_id call),
       companyId = assignProperty (upd_companyId updates) (companyId call),
       customerPhone = assignProperty (upd_customerPhone updates) (customerPhone call),
       status = assignProperty (upd_status updates) (status call),
       startTime = orKeep (upd_startTime updates) (startTime call),
       duration = assignProperty (upd_duration updates) (duration call),
       isEmergency = assignProperty (upd_isEmergency updates) (isEmergency call),
       transcript = assignProperty (upd_transcript updates) (transcript call),
       sentiment = assignProperty (upd_sentiment updates) (sentiment call) \<rparr>"

datatype EndReason = completed | hangup | error

text \<open>
  What leaves the service: events sent to the room of a company (with the call as it is
  when the event is sent), statements run on table \<open>call_records\<close>, and emergency
  alerts handed to the SMS sender.
\<close>

datatype Event =
  call_started ActiveCall
| call_updated ActiveCall CallUpdates
| call_ended ActiveCall EndReason
| emergency_detected ActiveCall

datatype Statement =
  set_summary string string
| set_is_emergency "string option"
| final_update "int option" "string option" "bool option" string

record Company =
  company_name :: string
  telnyx_phone_number :: "string option"

record EmergencyAlert =
  alert_to :: "string option"
  alert_from :: string
  alert_company :: string
  alert_eta :: string

text \<open>
  The state of the service and of its collaborators. \<open>activeCalls\<close> is a \<open>Map\<close>: it
  keeps its keys in insertion order, \<open>set\<close> on a key it has keeps the key's place.
\<close>

record Monitor =
  activeCalls :: "(string \<times> ActiveCall) list"
  emitted :: "(string \<times> Event \<times> Date) list"
  statements :: "Statement list"
  alerts :: "EmergencyAlert list"
  companies :: "string \<Rightarrow> Company option"

definition templateString :: "string option \<Rightarrow> string" where
  \<comment> \<open>A string inside a template literal or a concatenation: \<open>undefined\<close> prints as its name.\<close>
  "templateString s = (case s of None \<Rightarrow> ''undefined'' | Some t \<Rightarrow> t)"

definition emit :: "string option \<Rightarrow> Event \<Rightarrow> Date \<Rightarrow> Monitor \<Rightarrow> Monitor" where
  \<comment> \<open>\<open>this.io.to(`company-${companyId}`).emit(...)\<close>\<close>
  "emit room event now m =
     m\<lparr> emitted := emitted m @ [(''company-'' @ templateString room, event, now)] \<rparr>"

definition runStatement :: "Statement \<Rightarrow> Monitor \<Rightarrow> Monitor" where
  "runStatement q m = m\<lparr> statements := statements m @ [q] \<rparr>"

definition updateCallStatus :: "string \<Rightarrow> string \<Rightarrow> Monitor \<Rightarrow> Monitor" where
  "updateCallStatus callId statusText m = runStatement (set_summary (''Call '' @ statusText) callId) m"

definition addActiveCall :: "string \<Rightarrow> string \<Rightarrow> string \<Rightarrow> Date \<Rightarrow> Monitor \<Rightarrow> Monitor" where
  "addActiveCall callId company phone now m =
     (let activeCall = \<lparr> call_id = Some callId, companyId = Some company,
                          customerPhone = Some phone, status = Some ringing, startTime = now,
                          duration = Some 0, isEmergency = Some False,
                          transcript = Some [], sentiment = Some neutral \<rparr>;
          m = m\<lparr> activeCalls := AList.update callId activeCall (activeCalls m) \<rparr>;
          m = emit (Some company) (call_started activeCall) now m
      in updateCallStatus callId ''ringing'' m)"

definition findById :: "Monitor \<Rightarrow> string option \<Rightarrow> Company option" where
  \<comment> \<open>\<open>companyModel.findById(id)\<close>; an undefined id is sent as NULL and selects no row.\<close>
  "findById m ident = (case ident of None \<Rightarrow> None | Some c \<Rightarrow> companies m c)"

definition handleEmergencyDetection :: "ActiveCall \<Rightarrow> Date \<Rightarrow> Monitor \<Rightarrow> Monitor" where
  "handleEmergencyDetection call now m =
     (let m = emit (companyId call) (emergency_detected call) now m;
          m = (case findById m (companyId call) of
                 None \<Rightarrow> m
               | Some company \<Rightarrow>
                   (case telnyx_phone_number company of
                      None \<Rightarrow> m
                    | Some number \<Rightarrow>
                        if number = [] then m
                        else m\<lparr> alerts := alerts m @
                                 [\<lparr> alert_to = customerPhone call, alert_from = number,
                                    alert_company = company_name company,
                                    alert_eta = ''2 hours'' \<rparr>] \<rparr>))
      in runStatement (set_is_emergency (call_id call)) m)"

definition truthy :: "string Partial \<Rightarrow> bool" where
  \<comment> \<open>A string property is truthy when it is there with a value that is not empty.\<close>
  "truthy s = (case s of SetTo t \<Rightarrow> t \<noteq> [] | _ \<Rightarrow> False)"

definition textOf :: "string Partial \<Rightarrow> string" where
  "textOf s = (case s of SetTo t \<Rightarrow> t | _ \<Rightarrow> [])"

definition updateCall :: "string \<Rightarrow> CallUpdates \<Rightarrow> Date \<Rightarrow> Monitor \<Rightarrow> Monitor" where
  "updateCall callId updates now m =
     (case map_of (activeCalls m) callId of
        None \<Rightarrow> m
      | Some call \<Rightarrow>
          (let call = objectAssign call updates;
               call = call\<lparr> duration := Some ((now - startTime call) div 1000) \<rparr>;
               m = m\<lparr> activeCalls := AList.update callId call (activeCalls m) \<rparr>;
               m = emit (companyId call) (call_updated call updates) now m
           in if truthy (upd_transcript updates) \<and> isEmergency call \<noteq> Some True then
                (if detectEmergency (textOf (upd_transcript updates)) then
                   (let call = call\<lparr> isEmergency := Some True \<rparr>;
                        m = m\<lparr> activeCalls := AList.update callId call (activeCalls m) \<rparr>
                    in handleEmergencyDetection call now m)
                 else m)
              else m))"

definition endCall :: "string \<Rightarrow> EndReason \<Rightarrow> Date \<Rightarrow> Monitor \<Rightarrow> Monitor" where
  "endCall callId reason now m =
     (case map_of (activeCalls m) callId of
        None \<Rightarrow> m
      | Some call \<Rightarrow>
          (let call = call\<lparr> status := Some ending \<rparr>;
               call = call\<lparr> duration := Some ((now - startTime call) div 1000) \<rparr>;
               m = emit (companyId call) (call_ended call reason) now m;
               m = runStatement
                     (final_update (duration call) (transcript call) (isEmergency call) callId) m
           in m\<lparr> activeCalls := AList.delete callId (activeCalls m) \<rparr>))"

definition positiveWords :: "string list" where
  "positiveWords = [''thank'', ''great'', ''excellent'', ''perfect'', ''satisfied'', ''happy'']"

definition negativeWords :: "string list" where
  "negativeWords = [''angry'', ''frustrated'', ''terrible'', ''awful'', ''disappointed'', ''upset'']"

definition analyzeSentiment :: "string \<Rightarrow> Sentiment" where
  "analyzeSentiment text =
     (let lowerTranscript = toLowerCase text;
          positiveScore = length (filter (includesStr lowerTranscript) positiveWords);
          negativeScore = length (filter (includesStr lowerTranscript) negativeWords)
      in if positiveScore > negativeScore then positive
         else if negativeScore > positiveScore then negative
         else neutral)"

record VapiMessage =
  role :: string
  content :: string

text \<open>
  \<open>Array.from(this.activeCalls.values()).find(c => c.id.includes(vapiCallId))\<close>: the
  first session, in insertion order, whose id contains the Vapi id. Reaching a session
  whose id is undefined before a match throws a TypeError.
\<close>

datatype FindResult = Found string ActiveCall | NotFound | TypeError

fun findByVapiId :: "string \<Rightarrow> ActiveCall list \<Rightarrow> FindResult" where
  "findByVapiId vapiCallId [] = NotFound"
| "findByVapiId vapiCallId (c # rest) =
     (case call_id c of
        None \<Rightarrow> TypeError
      | Some ident \<Rightarrow>
          if includesStr ident vapiCallId then Found ident c else findByVapiId vapiCallId rest)"

definition handleVapiUpdate :: "string \<Rightarrow> VapiMessage \<Rightarrow> Date \<Rightarrow> Monitor \<Rightarrow> Monitor" where
  \<comment> \<open>A TypeError in the search rejects the call before anything has changed.\<close>
  "handleVapiUpdate vapiCallId message now m =
     (case findByVapiId vapiCallId (map snd (activeCalls m)) of
        NotFound \<Rightarrow> m
      | TypeError \<Rightarrow> m
      | Found ident call \<Rightarrow>
          if role message = ''user'' then
            (let newTranscript = templateString (transcript call) @ [CHR 0x0A] @ ''Customer: ''
                                 @ content message;
                 newSentiment = analyzeSentiment (content message)
             in updateCall ident
                  (noUpdates\<lparr> upd_transcript := SetTo newTranscript,
                              upd_sentiment := SetTo newSentiment \<rparr>) now m)
          else m)"

text \<open>The operations a session sees between its creation and its eviction.\<close>

datatype Operation =
  UpdateCall string CallUpdates Date
| HandleVapiUpdate string VapiMessage Date
| EndCall string EndReason Date

fun perform :: "Operation \<Rightarrow> Monitor \<Rightarrow> Monitor" where
  "perform (UpdateCall callId updates now) m = updateCall callId updates now m"
| "perform (HandleVapiUpdate vapiCallId message now) m = handleVapiUpdate vapiCallId message now m"
| "perform (EndCall callId reason now) m = endCall callId reason now m"

fun performAll :: "Operation list \<Rightarrow> Monitor \<Rightarrow> Monitor" where
  "performAll [] m = m"
| "performAll (operation # rest) m = performAll rest (perform operation m)"

definition registered :: "Monitor \<Rightarrow> string \<Rightarrow> bool" where
  \<comment> \<open>The live registry has a session under \<open>callId\<close>.\<close>
  "registered m callId = (map_of (activeCalls m) callId \<noteq> None)"

definition flagged :: "Monitor \<Rightarrow> string \<Rightarrow> bool" where
  \<comment> \<open>The session registered under \<open>callId\<close> has \<open>isEmergency\<close> true.\<close>
  "flagged m callId =
     (case map_of (activeCalls m) callId of
        None \<Rightarrow> False
      | Some call \<Rightarrow> isEmergency call = Some True)"

section \<open>Example data\<close>

definition demoAppointments :: "AppointmentRow list" where
  \<comment> \<open>Thursday 1 January 1970: one booking at 10:00 for an hour, a cancelled one at 16:00.\<close>
  "demoAppointments =
     [\<lparr> company_id = ''acme'', scheduled_date = 36000000, estimated_duration = 60,
        appt_status = SCHEDULED \<rparr>,
      \<lparr> company_id = ''acme'', scheduled_date = 57600000, estimated_duration = 60,
        appt_status = CANCELLED \<rparr>]"

definition fullyBooked :: "AppointmentRow list" where
  \<comment> \<open>One booking from 08:00 to 17:00 on each of the fourteen days from 1 January 1970.\<close>
  "fullyBooked =
     map (\<lambda>d. \<lparr> company_id = ''acme'', scheduled_date = d * 86400000 + 28800000,
                 estimated_duration = 540, appt_status = CONFIRMED \<rparr>) [0..13]"

definition emptyMonitor :: Monitor where
  "emptyMonitor = \<lparr> activeCalls = [], emitted = [], statements = [], alerts = [],
                     companies = (\<lambda>_. None) \<rparr>"

definition flaggedMonitor :: Monitor where
  \<comment> \<open>A call is registered, then a transcript with an emergency keyword arrives.\<close>
  "flaggedMonitor =
     updateCall ''call-1'' (noUpdates\<lparr> upd_transcript := SetTo ''I smell gas, there is a gas smell'' \<rparr>) 1000
       (addActiveCall ''call-1'' ''acme'' ''+15559876543'' 0 emptyMonitor)"

text \<open>
  An operation that leaves the flag alone or sets it: an \<open>updateCall\<close> whose updates have
  no \<open>isEmergency\<close> property or have it with the value \<open>true\<close>, a \<open>handleVapiUpdate\<close>, an
  \<open>endCall\<close>.
\<close>

definition keepsFlag :: "Operation \<Rightarrow> bool" where
  "keepsFlag operation =
     (case operation of
        UpdateCall callId updates now \<Rightarrow>
          upd_isEmergency updates = NotSet \<or> upd_isEmergency updates = SetTo True
      | HandleVapiUpdate vapiCallId message now \<Rightarrow> True
      | EndCall callId reason now \<Rightarrow> True)"

definition mockBusinessHours :: BusinessHours where
  \<comment> \<open>The business hours of \<open>createMockCompany\<close> in the test helpers.\<close>
  "mockBusinessHours =
     \<lparr> sunday = \<lparr> open_str = [], close_str = [], isClosed = True \<rparr>,
       monday = \<lparr> open_str = ''8:00 AM'', close_str = ''6:00 PM'', isClosed = False \<rparr>,
       tuesday = \<lparr> open_str = ''8:00 AM'', close_str = ''6:00 PM'', isClosed = False \<rparr>,
       wednesday = \<lparr> open_str = ''8:00 AM'', close_str = ''6:00 PM'', isClosed = False \<rparr>,
       thursday = \<lparr> open_str = ''8:00 AM'', close_str = ''6:00 PM'', isClosed = False \<rparr>,
       friday = \<lparr> open_str = ''8:00 AM'', close_str = ''6:00 PM'', isClosed = False \<rparr>,
       saturday = \<lparr> open_str = ''9:00 AM'', close_str = ''4:00 PM'', isClosed = False \<rparr> \<rparr>"

section \<open>The parts of a price text\<close>

definition emergencyDisclosure :: string where
  "emergencyDisclosure = ''emergency service rates apply''"

definition afterHoursDisclosure :: string where
  "afterHoursDisclosure = ''after-hours rates apply''"

definition priceEnding :: "bool \<Rightarrow> bool \<Rightarrow> string" where
  \<comment> \<open>What follows the quoted range in the text of \<open>estimateServicePrice\<close>.\<close>
  "priceEnding emergency afterHours =
     (if emergency then '' (emergency service rates apply)'' else [])
     @ (if afterHours then '' (after-hours rates apply)'' else [])
     @ ''. The final price depends on the specific issue and parts needed. We provide upfront pricing before any work begins.''"

section \<open>Substring matching\<close>

lemma startsWith_prefix: "startsWith s k \<longleftrightarrow> prefix k s"
  by (induction s k rule: startsWith.induct) auto

lemma includesStr_sublist: "includesStr s k \<longleftrightarrow> sublist k s"
proof (induction s)
  case Nil
  show ?case by auto
next
  case (Cons c cs)
  show ?case
  proof (cases k)
    case Nil
    then show ?thesis by simp
  next
    case (Cons a ks)
    then show ?thesis
      using Cons.IH by (auto simp: startsWith_prefix sublist_Cons_right simp del: startsWith.simps)
  qed
qed

lemma keywordLoop_iff: "keywordLoop t ks \<longleftrightarrow> (\<exists>k \<in> set ks. includesStr t k)"
  by (induction ks) auto

lemma categoryLoop_iff:
  "categoryLoop t cats \<longleftrightarrow> (\<exists>cat \<in> set cats. \<exists>k \<in> set cat. includesStr t k)"
  by (induction cats) (auto simp: keywordLoop_iff)

lemma mentions_code: "mentions t ks = list_ex (includesStr (toLowerCase t)) ks"
  by (simp add: mentions_def list_ex_iff includesStr_sublist)

lemma detectEmergency_iff:
  "detectEmergency t \<longleftrightarrow> (\<exists>cat \<in> set emergencyKeywords. mentions t cat)"
  by (simp add: detectEmergency_def categoryLoop_iff mentions_def includesStr_sublist)

section \<open>The order of the call-type rules\<close>

lemma classify_schedule_example:
  "classifyCallType ''I want to schedule an appointment'' = APPOINTMENT_BOOKING"
  by code_simp

lemma classify_cost_example:
  "classifyCallType ''How much does furnace repair cost?'' = PRICE_ESTIMATE"
  by code_simp

text \<open>
  C6: \<open>classifyCallType\<close> applies its rules in a fixed order and the first match wins:
  the result is EMERGENCY exactly when \<open>detectEmergency\<close> holds (some emergency keyword
  occurs in the lower-cased text), otherwise APPOINTMENT_BOOKING exactly when the
  scheduling vocabulary matches, otherwise PRICE_ESTIMATE exactly when the cost
  vocabulary matches, otherwise SERVICE_REQUEST exactly when the repair and maintenance
  vocabulary matches, and GENERAL_INQUIRY when nothing matches. So a text with
  scheduling and cost vocabulary and no emergency keyword is an APPOINTMENT_BOOKING,
  and the two example sentences classify as APPOINTMENT_BOOKING and PRICE_ESTIMATE.
\<close>

theorem classifyCallType_first_match_wins:
  "(detectEmergency t \<longleftrightarrow> (\<exists>cat \<in> set emergencyKeywords. mentions t cat))
   \<and> (classifyCallType t = EMERGENCY_CALL \<longleftrightarrow> detectEmergency t)
   \<and> (classifyCallType t = APPOINTMENT_BOOKING \<longleftrightarrow>
        \<not> detectEmergency t \<and> mentions t appointmentKeywords)
   \<and> (classifyCallType t = PRICE_ESTIMATE \<longleftrightarrow>
        \<not> detectEmergency t \<and> \<not> mentions t appointmentKeywords \<and> mentions t priceKeywords)
   \<and> (classifyCallType t = SERVICE_REQUEST \<longleftrightarrow>
        \<not> detectEmergency t \<and> \<not> mentions t appointmentKeywords \<and> \<not> mentions t priceKeywords
        \<and> mentions t serviceKeywords)
   \<and> (classifyCallType t = GENERAL_INQUIRY \<longleftrightarrow>
        \<not> detectEmergency t \<and> \<not> mentions t appointmentKeywords \<and> \<not> mentions t priceKeywords
        \<and> \<not> mentions t serviceKeywords)
   \<and> (mentions t appointmentKeywords \<and> mentions t priceKeywords \<and> \<not> detectEmergency t
        \<longrightarrow> classifyCallType t = APPOINTMENT_BOOKING)
   \<and> classifyCallType ''I want to schedule an appointment'' = APPOINTMENT_BOOKING
   \<and> classifyCallType ''How much does furnace repair cost?'' = PRICE_ESTIMATE"
proof -
  have order: "classifyCallType t =
      (if detectEmergency t then EMERGENCY_CALL
       else if mentions t appointmentKeywords then APPOINTMENT_BOOKING
       else if mentions t priceKeywords then PRICE_ESTIMATE
       else if mentions t serviceKeywords then SERVICE_REQUEST
       else GENERAL_INQUIRY)"
    by (simp add: classifyCallType_def mentions_code containsAppointmentKeywords_def
        containsPriceKeywords_def containsServiceKeywords_def Let_def)
  have general: "(classifyCallType t = EMERGENCY_CALL \<longleftrightarrow> detectEmergency t)
   \<and> (classifyCallType t = APPOINTMENT_BOOKING \<longleftrightarrow>
        \<not> detectEmergency t \<and> mentions t appointmentKeywords)
   \<and> (classifyCallType t = PRICE_ESTIMATE \<longleftrightarrow>
        \<not> detectEmergency t \<and> \<not> mentions t appointmentKeywords \<and> mentions t priceKeywords)
   \<and> (classifyCallType t = SERVICE_REQUEST \<longleftrightarrow>
        \<not> detectEmergency t \<and> \<not> mentions t appointmentKeywords \<and> \<not> mentions t priceKeywords
        \<and> mentions t serviceKeywords)
   \<and> (classifyCallType t = GENERAL_INQUIRY \<longleftrightarrow>
        \<not> detectEmergency t \<and> \<not> mentions t appointmentKeywords \<and> \<not> mentions t priceKeywords
        \<and> \<not> mentions t serviceKeywords)"
    unfolding order by simp
  from general detectEmergency_iff [of t] classify_schedule_example classify_cost_example
  show ?thesis
    by blast
qed

theorem classifyCallType_first_match_wins_witness:
  "mentions ''How much to book a visit'' appointmentKeywords
   \<and> mentions ''How much to book a visit'' priceKeywords
   \<and> \<not> detectEmergency ''How much to book a visit''
   \<and> classifyCallType ''How much to book a visit'' = APPOINTMENT_BOOKING"
proof -
  have h: "mentions ''How much to book a visit'' appointmentKeywords
      \<and> mentions ''How much to book a visit'' priceKeywords
      \<and> \<not> detectEmergency ''How much to book a visit''"
    unfolding mentions_code by code_simp
  from classifyCallType_first_match_wins [of "''How much to book a visit''"] h
  have "classifyCallType ''How much to book a visit'' = APPOINTMENT_BOOKING"
    by blast
  with h show ?thesis by blast
qed

section \<open>Service categories\<close>

lemma serviceLoop_eq:
  "serviceLoop t m acc = acc @ map fst (filter (\<lambda>(service, keywords). list_ex (includesStr t) keywords) m)"
  by (induction m arbitrary: acc) auto

lemma extractServiceType_eq:
  "extractServiceType t =
     (let matched = map fst (filter (\<lambda>(service, keywords). mentions t keywords) serviceMap)
      in if matched = [] then [''general_hvac''] else matched)"
  by (simp add: extractServiceType_def serviceLoop_eq mentions_code Let_def)

lemma toLowerChar_sameLetter:
  assumes "k \<notin> set capitalLetters"
  shows "toLowerChar c = k \<longleftrightarrow> sameLetter c k"
proof
  assume lower: "toLowerChar c = k"
  show "sameLetter c k"
  proof (cases "map_of (zip capitalLetters smallLetters) c")
    case None
    with lower have "c = k"
      by (simp add: toLowerChar_def capitalLetters_def smallLetters_def)
    then show ?thesis by (simp add: sameLetter_def)
  next
    case (Some l)
    with lower have "l = k"
      by (simp add: toLowerChar_def capitalLetters_def smallLetters_def)
    with Some have "(c, k) \<in> set (zip capitalLetters smallLetters)"
      by (auto dest: map_of_SomeD)
    then show ?thesis by (simp add: sameLetter_def)
  qed
next
  assume "sameLetter c k"
  then consider "c = k" | "(c, k) \<in> set (zip capitalLetters smallLetters)"
    | "(k, c) \<in> set (zip capitalLetters smallLetters)"
    by (auto simp: sameLetter_def)
  then show "toLowerChar c = k"
  proof cases
    case 1
    from assms have "map_of (zip capitalLetters smallLetters) k = None"
      by (subst map_of_zip_is_None) (simp_all add: capitalLetters_def smallLetters_def)
    with 1 show ?thesis
      by (simp add: toLowerChar_def capitalLetters_def smallLetters_def)
  next
    case 2
    have "distinct (map fst (zip capitalLetters smallLetters))"
      by (simp add: capitalLetters_def smallLetters_def)
    from map_of_is_SomeI [OF this 2] show ?thesis
      by (simp add: toLowerChar_def capitalLetters_def smallLetters_def)
  next
    case 3
    then have "k \<in> set capitalLetters" by (rule set_zip_leftD)
    with assms show ?thesis by simp
  qed
qed

lemma toLowerCase_sameLetter:
  assumes "set k \<inter> set capitalLetters = {}"
  shows "toLowerCase w = k \<longleftrightarrow> list_all2 sameLetter w k"
proof -
  have "toLowerCase w = k \<longleftrightarrow> list_all2 (\<lambda>c d. toLowerChar c = d) w k"
    by (simp add: toLowerCase_def list_all2_map1 [where P = "(=)", symmetric] list.rel_eq)
  also have "\<dots> \<longleftrightarrow> list_all2 sameLetter w k"
  proof
    assume "list_all2 (\<lambda>c d. toLowerChar c = d) w k"
    then show "list_all2 sameLetter w k"
      by (rule list.rel_mono_strong) (use assms toLowerChar_sameLetter in auto)
  next
    assume "list_all2 sameLetter w k"
    then show "list_all2 (\<lambda>c d. toLowerChar c = d) w k"
      by (rule list.rel_mono_strong) (use assms toLowerChar_sameLetter in auto)
  qed
  finally show ?thesis .
qed

lemma sublist_map_iff: "sublist k (map f t) \<longleftrightarrow> (\<exists>w. sublist w t \<and> map f w = k)"
proof
  assume "sublist k (map f t)"
  then obtain ps ss where "map f t = ps @ k @ ss" by (auto simp: sublist_def)
  then have "\<exists>us vs. t = us @ vs \<and> ps = map f us \<and> k @ ss = map f vs"
    by (simp only: map_eq_append_conv)
  then obtain ps' rest where split1: "t = ps' @ rest" "k @ ss = map f rest"
    by blast
  from split1(2) have "\<exists>us vs. rest = us @ vs \<and> k = map f us \<and> ss = map f vs"
    by (simp only: append_eq_map_conv)
  then obtain w ss' where split2: "rest = w @ ss'" "k = map f w"
    by blast
  from split1(1) split2 have "t = ps' @ w @ ss'" "map f w = k" by simp_all
  then show "\<exists>w. sublist w t \<and> map f w = k" by auto
next
  assume "\<exists>w. sublist w t \<and> map f w = k"
  then obtain w where "sublist w t" "map f w = k" by blast
  then show "sublist k (map f t)" by (auto dest: map_mono_sublist)
qed

text \<open>
  For a keyword without capital letters, occurring in the lower-cased text is occurring
  in the text in either case.
\<close>

lemma lowercased_occurrence:
  assumes "set k \<inter> set capitalLetters = {}"
  shows "sublist k (toLowerCase t) \<longleftrightarrow> occursIgnoringCase k t"
proof -
  have "sublist k (toLowerCase t) \<longleftrightarrow> (\<exists>w. sublist w t \<and> toLowerCase w = k)"
    unfolding toLowerCase_def by (rule sublist_map_iff)
  with toLowerCase_sameLetter [OF assms] show ?thesis
    by (simp add: occursIgnoringCase_def)
qed

lemma serviceMap_small_letters:
  "\<forall>(service, keywords) \<in> set serviceMap. \<forall>k \<in> set keywords. set k \<inter> set capitalLetters = {}"
  by code_simp

lemma mentions_matchesCategory:
  assumes "(service, kws) \<in> set serviceMap"
  shows "mentions t kws \<longleftrightarrow> matchesCategory t kws"
proof -
  from assms serviceMap_small_letters
  have "\<forall>k \<in> set kws. set k \<inter> set capitalLetters = {}" by blast
  then show ?thesis
    by (auto simp: mentions_def matchesCategory_def lowercased_occurrence)
qed

lemma extract_unclear_example:
  "extractServiceType ''I have some issues with my system'' = [''general_hvac'']"
  by code_simp

lemma extract_capitals_examples:
  "extractServiceType ''AC unit servicing'' = [''cooling'']"
  "extractServiceType ''Can you install a NEW THERMOSTAT?'' = [''thermostat'', ''installation'']"
  by code_simp+


text \<open>
  C7: \<open>extractServiceType\<close> never returns an empty list. Every category of the
  keyword map that has a keyword occurring in the text, in capitals or small letters, is
  in the result (several can be at once), nothing else is except the fallback, and when
  no category matches the result is exactly \<open>["general_hvac"]\<close>, as it is for "I have
  some issues with my system". The match pays no attention to case: "AC unit servicing"
  gives cooling.
\<close>

theorem extractServiceType_never_empty:
  "extractServiceType t \<noteq> []
   \<and> (\<forall>(service, keywords) \<in> set serviceMap.
         matchesCategory t keywords \<longrightarrow> service \<in> set (extractServiceType t))
   \<and> (\<forall>service \<in> set (extractServiceType t).
         service = ''general_hvac'' \<or>
         (\<exists>keywords. (service, keywords) \<in> set serviceMap \<and> matchesCategory t keywords))
   \<and> ((\<forall>(service, keywords) \<in> set serviceMap. \<not> matchesCategory t keywords)
         \<longrightarrow> extractServiceType t = [''general_hvac''])
   \<and> extractServiceType ''I have some issues with my system'' = [''general_hvac'']
   \<and> extractServiceType ''AC unit servicing'' = [''cooling'']
   \<and> extractServiceType ''Can you install a NEW THERMOSTAT?'' = [''thermostat'', ''installation'']"
proof -
  let ?matched = "map fst (filter (\<lambda>(service, keywords). mentions t keywords) serviceMap)"
  have eq: "extractServiceType t = (if ?matched = [] then [''general_hvac''] else ?matched)"
    by (simp add: extractServiceType_eq Let_def)
  have nonempty: "extractServiceType t \<noteq> []"
    unfolding eq by simp
  have included: "\<forall>(service, keywords) \<in> set serviceMap.
      matchesCategory t keywords \<longrightarrow> service \<in> set (extractServiceType t)"
  proof (clarify)
    fix service kws
    assume mem: "(service, kws) \<in> set serviceMap" and hit: "matchesCategory t kws"
    from hit have "mentions t kws" by (simp add: mentions_matchesCategory [OF mem])
    with mem have in_matched: "service \<in> set ?matched" by force
    then have "?matched \<noteq> []" by (metis empty_iff list.set(1))
    with in_matched show "service \<in> set (extractServiceType t)"
      unfolding eq by simp
  qed
  have only: "\<forall>service \<in> set (extractServiceType t).
      service = ''general_hvac'' \<or>
      (\<exists>keywords. (service, keywords) \<in> set serviceMap \<and> matchesCategory t keywords)"
  proof
    fix service
    assume "service \<in> set (extractServiceType t)"
    then have "service = ''general_hvac'' \<or> service \<in> set ?matched"
      unfolding eq by (simp split: if_splits)
    then have "service = ''general_hvac'' \<or>
        (\<exists>kws. (service, kws) \<in> set serviceMap \<and> mentions t kws)"
      by auto
    then show "service = ''general_hvac'' \<or>
        (\<exists>kws. (service, kws) \<in> set serviceMap \<and> matchesCategory t kws)"
      using mentions_matchesCategory by blast
  qed
  have fallback: "(\<forall>(service, keywords) \<in> set serviceMap. \<not> matchesCategory t keywords)
      \<longrightarrow> extractServiceType t = [''general_hvac'']"
  proof
    assume "\<forall>(service, keywords) \<in> set serviceMap. \<not> matchesCategory t keywords"
    then have "\<forall>(service, keywords) \<in> set serviceMap. \<not> mentions t keywords"
      using mentions_matchesCategory by blast
    then have "filter (\<lambda>(service, keywords). mentions t keywords) serviceMap = []"
      by (auto simp: filter_empty_conv)
    then show "extractServiceType t = [''general_hvac'']"
      unfolding eq by simp
  qed
  from nonempty included only fallback extract_unclear_example extract_capitals_examples
  show ?thesis
    by blast
qed

theorem extractServiceType_never_empty_witness:
  "(''heating'', [''heat'', ''furnace'', ''boiler'', ''heating'', ''heater'']) \<in> set serviceMap
   \<and> matchesCategory ''My FURNACE needs repair'' [''heat'', ''furnace'', ''boiler'', ''heating'', ''heater'']
   \<and> ''heating'' \<in> set (extractServiceType ''My FURNACE needs repair'')
   \<and> \<not> (\<exists>(service, keywords) \<in> set serviceMap. matchesCategory ''Are you open today?'' keywords)
   \<and> extractServiceType ''Are you open today?'' = [''general_hvac'']"
proof -
  have a: "(''heating'', [''heat'', ''furnace'', ''boiler'', ''heating'', ''heater'']) \<in> set serviceMap"
    by (simp add: serviceMap_def)
  have "sublist ''FURNACE'' ''My FURNACE needs repair''" by code_simp
  moreover have "list_all2 sameLetter ''FURNACE'' ''furnace''" by code_simp
  ultimately have "occursIgnoringCase ''furnace'' ''My FURNACE needs repair''"
    unfolding occursIgnoringCase_def by blast
  then have b: "matchesCategory ''My FURNACE needs repair''
      [''heat'', ''furnace'', ''boiler'', ''heating'', ''heater'']"
    by (simp add: matchesCategory_def)
  have "\<forall>(service, keywords) \<in> set serviceMap. \<not> mentions ''Are you open today?'' keywords"
    unfolding mentions_code by code_simp
  then have c: "\<forall>(service, keywords) \<in> set serviceMap.
      \<not> matchesCategory ''Are you open today?'' keywords"
    using mentions_matchesCategory by blast
  from extractServiceType_never_empty [of "''My FURNACE needs repair''"] a b
  have d: "''heating'' \<in> set (extractServiceType ''My FURNACE needs repair'')"
    by blast
  from extractServiceType_never_empty [of "''Are you open today?''"] c
  have e: "extractServiceType ''Are you open today?'' = [''general_hvac'']"
    by blast
  from c have c': "\<not> (\<exists>(service, keywords) \<in> set serviceMap.
      matchesCategory ''Are you open today?'' keywords)"
    by blast
  from a b c' d e show ?thesis by blast
qed

section \<open>Available slots\<close>

lemma set_existingAppointments:
  "set (existingAppointments appointments cid date) =
     {appt \<in> set appointments. company_id appt = cid
        \<and> sqlDATE (scheduled_date appt) = sqlDATE date \<and> isActive appt}"
  by (auto simp: existingAppointments_def)

lemma slotLoop_member:
  "slot \<in> set (slotLoop time endOfDay dur rows slots) \<Longrightarrow>
     slot \<in> set slots \<or> (time \<le> slot \<and> slot < endOfDay
       \<and> \<not> hasConflict slot (slot + dur * 60000) rows)"
proof (induction time endOfDay dur rows slots rule: slotLoop.induct)
  case (1 time endOfDay dur rows slots)
  show ?case
  proof (cases "time < endOfDay")
    case False
    with "1.prems" show ?thesis by (simp add: slotLoop.simps [of time])
  next
    case True
    let ?slots' = "if \<not> hasConflict time (time + dur * 60000) rows then slots @ [time] else slots"
    from "1.prems" True
    have "slot \<in> set (slotLoop (time + slotInterval * msPerMinute) endOfDay dur rows ?slots')"
      by (simp add: slotLoop.simps [of time])
    from "1.IH" [OF True this]
    have "slot \<in> set ?slots' \<or> (time + slotInterval * msPerMinute \<le> slot \<and> slot < endOfDay
       \<and> \<not> hasConflict slot (slot + dur * 60000) rows)" .
    with True show ?thesis
      by (auto simp: slotInterval_def msPerMinute_def split: if_splits)
  qed
qed

lemma no_overlap_disjoint:
  assumes "\<not> startsInside time slotEnd appt" "\<not> endsInside time slotEnd appt"
    "\<not> containsAppt time slotEnd appt"
  shows "{time ..< slotEnd} \<inter>
         {scheduled_date appt ..< scheduled_date appt + estimated_duration appt * 60000} = {}"
  using assms by (auto simp: startsInside_def endsInside_def containsAppt_def Let_def)

lemma overlap_conditions_iff_intersect:
  assumes "time < slotEnd" "0 < estimated_duration appt"
  shows "(startsInside time slotEnd appt \<or> endsInside time slotEnd appt
            \<or> containsAppt time slotEnd appt) \<longleftrightarrow>
         {time ..< slotEnd} \<inter>
         {scheduled_date appt ..< scheduled_date appt + estimated_duration appt * 60000} \<noteq> {}"
proof
  assume "startsInside time slotEnd appt \<or> endsInside time slotEnd appt
            \<or> containsAppt time slotEnd appt"
  then consider "time \<in> {scheduled_date appt ..< scheduled_date appt + estimated_duration appt * 60000}"
    | "scheduled_date appt \<in> {time ..< slotEnd}"
    using assms
    by (cases "scheduled_date appt \<le> time")
       (auto simp: startsInside_def endsInside_def containsAppt_def Let_def)
  then show "{time ..< slotEnd} \<inter>
         {scheduled_date appt ..< scheduled_date appt + estimated_duration appt * 60000} \<noteq> {}"
  proof cases
    case 1
    with assms have "time \<in> {time ..< slotEnd}" by simp
    with 1 show ?thesis by blast
  next
    case 2
    with assms have "scheduled_date appt \<in>
        {scheduled_date appt ..< scheduled_date appt + estimated_duration appt * 60000}" by simp
    with 2 show ?thesis by blast
  qed
next
  assume "{time ..< slotEnd} \<inter>
         {scheduled_date appt ..< scheduled_date appt + estimated_duration appt * 60000} \<noteq> {}"
  with no_overlap_disjoint [of time slotEnd appt]
  show "startsInside time slotEnd appt \<or> endsInside time slotEnd appt
            \<or> containsAppt time slotEnd appt"
    by blast
qed

text \<open>
  C1: every slot that \<open>getAvailableSlots\<close> returns for a company, a date and a duration
  is clear of every active appointment of that company on that date: the interval
  \<open>[slot, slot + duration)\<close> and the interval \<open>[start, start + estimatedDuration)\<close> have
  no instant in common, and none of the three overlap conditions of the code holds.
\<close>

theorem getAvailableSlots_no_overlap:
  assumes "slot \<in> set (getAvailableSlots appointments cid date dur)"
    and "appt \<in> set appointments"
    and "company_id appt = cid"
    and "sqlDATE (scheduled_date appt) = sqlDATE date"
    and "appt_status appt \<noteq> CANCELLED" and "appt_status appt \<noteq> COMPLETED"
  shows "{slot ..< slot + dur * 60000} \<inter>
         {scheduled_date appt ..< scheduled_date appt + estimated_duration appt * 60000} = {}
       \<and> \<not> startsInside slot (slot + dur * 60000) appt
       \<and> \<not> endsInside slot (slot + dur * 60000) appt
       \<and> \<not> containsAppt slot (slot + dur * 60000) appt"
proof -
  let ?rows = "existingAppointments appointments cid date"
  from assms(1) have "\<not> hasConflict slot (slot + dur * 60000) ?rows"
    unfolding getAvailableSlots_def by (auto dest: slotLoop_member)
  moreover from assms have "appt \<in> set ?rows"
    by (simp add: set_existingAppointments isActive_def)
  ultimately have none: "\<not> startsInside slot (slot + dur * 60000) appt"
    "\<not> endsInside slot (slot + dur * 60000) appt"
    "\<not> containsAppt slot (slot + dur * 60000) appt"
    by (auto simp: hasConflict_def list_ex_iff)
  with no_overlap_disjoint [OF none] show ?thesis by simp
qed

lemma demo_slots:
  "getAvailableSlots demoAppointments ''acme'' 0 60 =
     [28800000, 30600000, 32400000, 39600000, 41400000, 43200000, 45000000,
      46800000, 48600000, 50400000, 52200000, 54000000, 55800000, 57600000, 59400000]"
  by code_simp

theorem getAvailableSlots_no_overlap_witness:
  "32400000 \<in> set (getAvailableSlots demoAppointments ''acme'' 0 60)
   \<and> hd demoAppointments \<in> set demoAppointments
   \<and> company_id (hd demoAppointments) = ''acme''
   \<and> sqlDATE (scheduled_date (hd demoAppointments)) = sqlDATE 0
   \<and> appt_status (hd demoAppointments) \<noteq> CANCELLED
   \<and> appt_status (hd demoAppointments) \<noteq> COMPLETED
   \<and> {32400000 ..< 32400000 + 60 * 60000} \<inter>
       {scheduled_date (hd demoAppointments) ..<
        scheduled_date (hd demoAppointments) + estimated_duration (hd demoAppointments) * 60000} = {}"
proof -
  have a: "32400000 \<in> set (getAvailableSlots demoAppointments ''acme'' 0 60)"
    by (simp add: demo_slots)
  have b: "hd demoAppointments \<in> set demoAppointments"
    "company_id (hd demoAppointments) = ''acme''"
    "sqlDATE (scheduled_date (hd demoAppointments)) = sqlDATE 0"
    "appt_status (hd demoAppointments) \<noteq> CANCELLED"
    "appt_status (hd demoAppointments) \<noteq> COMPLETED"
    by (simp_all add: demoAppointments_def sqlDATE_def msPerDay_def)
  from getAvailableSlots_no_overlap [OF a b] a b show ?thesis
    by blast
qed

section \<open>Searching for the next slot\<close>

lemma slotLoop_sorted:
  "sorted slots \<Longrightarrow> \<forall>x \<in> set slots. x < time \<Longrightarrow>
   sorted (slotLoop time endOfDay dur rows slots)"
proof (induction time endOfDay dur rows slots rule: slotLoop.induct)
  case (1 time endOfDay dur rows slots)
  show ?case
  proof (cases "time < endOfDay")
    case False
    with "1.prems" show ?thesis by (simp add: slotLoop.simps [of time])
  next
    case True
    let ?slots' = "if \<not> hasConflict time (time + dur * 60000) rows then slots @ [time] else slots"
    have s: "sorted ?slots'"
      using "1.prems" by (auto simp: sorted_append intro: less_imp_le)
    have b: "\<forall>x \<in> set ?slots'. x < time + slotInterval * msPerMinute"
      using "1.prems" by (auto simp: slotInterval_def msPerMinute_def)
    from "1.IH" [OF True s b] True show ?thesis
      by (simp add: slotLoop.simps [of time])
  qed
qed

lemma getAvailableSlots_sorted: "sorted (getAvailableSlots appointments cid date dur)"
  unfolding getAvailableSlots_def by (rule slotLoop_sorted) simp_all

lemma getAvailableSlots_window:
  "slot \<in> set (getAvailableSlots appointments cid date dur) \<Longrightarrow>
     setHours date 8 \<le> slot \<and> slot < setHours date 17"
  unfolding getAvailableSlots_def by (auto dest: slotLoop_member)

lemma getAvailableSlots_same_day:
  assumes "slot \<in> set (getAvailableSlots appointments cid date dur)"
  shows "sqlDATE slot = sqlDATE date"
proof -
  define q where "q = date div msPerDay"
  have sod: "startOfDay date = q * msPerDay"
    unfolding startOfDay_def q_def by (simp add: minus_mod_eq_div_mult)
  from getAvailableSlots_window [OF assms]
  have "q * msPerDay + 8 * msPerHour \<le> slot" "slot < q * msPerDay + 17 * msPerHour"
    by (simp_all add: setHours_def sod)
  then have "q * 86400000 \<le> slot" "slot < (q + 1) * 86400000"
    by (simp_all add: msPerDay_def msPerHour_def algebra_simps)
  then have "slot div 86400000 = q"
    by (intro int_div_pos_eq [where r = "slot - 86400000 * q"]) simp_all
  then show ?thesis
    by (simp add: sqlDATE_def q_def msPerDay_def)
qed


lemma dayLoop_none:
  "\<forall>d. k \<le> d \<and> d < 14 \<longrightarrow>
       getDay (addDays now d) = 0 \<or> getAvailableSlots appointments cid (addDays now d) 60 = []
   \<Longrightarrow> dayLoop appointments cid now k = None"
proof (induction appointments cid now k rule: dayLoop.induct)
  case (1 appointments cid now k)
  show ?case
  proof (cases "k < 14")
    case False
    then show ?thesis by (simp add: dayLoop.simps [of _ _ _ k])
  next
    case True
    from "1.prems" True
    have here: "getDay (addDays now k) = 0 \<or> getAvailableSlots appointments cid (addDays now k) 60 = []"
      by simp
    from "1.prems" have later: "\<forall>d. k + 1 \<le> d \<and> d < 14 \<longrightarrow>
       getDay (addDays now d) = 0 \<or> getAvailableSlots appointments cid (addDays now d) 60 = []"
      by simp
    show ?thesis
    proof (cases "getDay (addDays now k) = 0")
      case sunday: True
      from "1.IH"(1) [OF True refl sunday later] True sunday show ?thesis
        by (simp add: dayLoop.simps [of _ _ _ k])
    next
      case weekday: False
      with here have empty: "getAvailableSlots appointments cid (addDays now k) 60 = []" by simp
      from "1.IH"(2) [OF True refl weekday empty later] True weekday empty show ?thesis
        by (simp add: dayLoop.simps [of _ _ _ k])
    qed
  qed
qed

lemma dayLoop_first:
  "k \<le> d \<Longrightarrow> d < 14 \<Longrightarrow> getDay (addDays now d) \<noteq> 0 \<Longrightarrow>
   getAvailableSlots appointments cid (addDays now d) 60 \<noteq> [] \<Longrightarrow>
   \<forall>d'. k \<le> d' \<and> d' < d \<longrightarrow>
       getDay (addDays now d') = 0 \<or> getAvailableSlots appointments cid (addDays now d') 60 = []
   \<Longrightarrow> dayLoop appointments cid now k
         = Some (hd (getAvailableSlots appointments cid (addDays now d) 60))"
proof (induction appointments cid now k rule: dayLoop.induct)
  case (1 appointments cid now k)
  from "1.prems" have k14: "k < 14" by simp
  show ?case
  proof (cases "k = d")
    case True
    with "1.prems" k14 show ?thesis
      by (cases "getAvailableSlots appointments cid (addDays now d) 60")
         (simp_all add: dayLoop.simps [of _ _ _ d])
  next
    case False
    with "1.prems" have lt: "k < d" and next_le: "k + 1 \<le> d" by simp_all
    from "1.prems" lt
    have here: "getDay (addDays now k) = 0 \<or> getAvailableSlots appointments cid (addDays now k) 60 = []"
      by simp
    from "1.prems" have later: "\<forall>d'. k + 1 \<le> d' \<and> d' < d \<longrightarrow>
       getDay (addDays now d') = 0 \<or> getAvailableSlots appointments cid (addDays now d') 60 = []"
      by simp
    show ?thesis
    proof (cases "getDay (addDays now k) = 0")
      case sunday: True
      from "1.IH"(1) [OF k14 refl sunday next_le "1.prems"(2,3,4) later] k14 sunday
      show ?thesis
        by (simp add: dayLoop.simps [of _ _ _ k])
    next
      case weekday: False
      with here have empty: "getAvailableSlots appointments cid (addDays now k) 60 = []" by simp
      from "1.IH"(2) [OF k14 refl weekday empty next_le "1.prems"(2,3,4) later] k14 weekday empty
      show ?thesis
        by (simp add: dayLoop.simps [of _ _ _ k])
    qed
  qed
qed

lemma hd_sorted_least: "sorted xs \<Longrightarrow> x \<in> set xs \<Longrightarrow> hd xs \<le> x"
  by (cases xs) auto

text \<open>
  C4: for a priority other than EMERGENCY, \<open>getNextAvailableSlot\<close> looks at the days
  today, today + 1, ..., today + 13 in this order, passes over Sundays and over days
  without a free slot, and returns the first, which is the earliest, slot of the first
  day that has one; when none of the fourteen days gives a slot it returns 09:00 of the
  day fourteen days from now. It always returns a date.
\<close>

theorem getNextAvailableSlot_standard_search:
  assumes "priority \<noteq> EMERGENCY"
  shows "((\<forall>d \<in> {0..<14}. getDay (addDays now d) = 0
              \<or> getAvailableSlots appointments cid (addDays now d) 60 = [])
          \<longrightarrow> getNextAvailableSlot appointments cid priority now = setHours (addDays now 14) 9)
       \<and> (\<forall>d \<in> {0..<14}.
             getDay (addDays now d) \<noteq> 0
             \<and> getAvailableSlots appointments cid (addDays now d) 60 \<noteq> []
             \<and> (\<forall>d' \<in> {0..<d}. getDay (addDays now d') = 0
                    \<or> getAvailableSlots appointments cid (addDays now d') 60 = [])
           \<longrightarrow> getNextAvailableSlot appointments cid priority now
                 = hd (getAvailableSlots appointments cid (addDays now d) 60)
               \<and> (\<forall>slot \<in> set (getAvailableSlots appointments cid (addDays now d) 60).
                     getNextAvailableSlot appointments cid priority now \<le> slot))"
proof -
  have exhausted: "(\<forall>d \<in> {0..<14}. getDay (addDays now d) = 0
              \<or> getAvailableSlots appointments cid (addDays now d) 60 = [])
          \<longrightarrow> getNextAvailableSlot appointments cid priority now = setHours (addDays now 14) 9"
  proof
  assume "\<forall>d \<in> {0..<14}. getDay (addDays now d) = 0
              \<or> getAvailableSlots appointments cid (addDays now d) 60 = []"
  then have "dayLoop appointments cid now 0 = None"
    by (intro dayLoop_none) simp
  with assms show "getNextAvailableSlot appointments cid priority now = setHours (addDays now 14) 9"
    by (simp add: getNextAvailableSlot_def standardSearch_def fallbackSlot_def)
  qed
  have found: "\<forall>d \<in> {0..<14}.
             getDay (addDays now d) \<noteq> 0
             \<and> getAvailableSlots appointments cid (addDays now d) 60 \<noteq> []
             \<and> (\<forall>d' \<in> {0..<d}. getDay (addDays now d') = 0
                    \<or> getAvailableSlots appointments cid (addDays now d') 60 = [])
           \<longrightarrow> getNextAvailableSlot appointments cid priority now
                 = hd (getAvailableSlots appointments cid (addDays now d) 60)
               \<and> (\<forall>slot \<in> set (getAvailableSlots appointments cid (addDays now d) 60).
                     getNextAvailableSlot appointments cid priority now \<le> slot)"
  proof (intro ballI impI)
  fix d :: int
  assume d: "d \<in> {0..<14}"
    and first: "getDay (addDays now d) \<noteq> 0
             \<and> getAvailableSlots appointments cid (addDays now d) 60 \<noteq> []
             \<and> (\<forall>d' \<in> {0..<d}. getDay (addDays now d') = 0
                    \<or> getAvailableSlots appointments cid (addDays now d') 60 = [])"
  from d first have "dayLoop appointments cid now 0
      = Some (hd (getAvailableSlots appointments cid (addDays now d) 60))"
    by (intro dayLoop_first) simp_all
  with assms have eq: "getNextAvailableSlot appointments cid priority now
      = hd (getAvailableSlots appointments cid (addDays now d) 60)"
    by (simp add: getNextAvailableSlot_def standardSearch_def)
  show "getNextAvailableSlot appointments cid priority now
          = hd (getAvailableSlots appointments cid (addDays now d) 60)
        \<and> (\<forall>slot \<in> set (getAvailableSlots appointments cid (addDays now d) 60).
              getNextAvailableSlot appointments cid priority now \<le> slot)"
    unfolding eq by (simp add: hd_sorted_least [OF getAvailableSlots_sorted])
  qed
  from exhausted found show ?thesis ..
qed


theorem getNextAvailableSlot_standard_search_witness:
  "MEDIUM \<noteq> EMERGENCY
   \<and> \<not> (\<exists>d \<in> {0..<14}. getDay (addDays 0 d) \<noteq> 0
          \<and> getAvailableSlots fullyBooked ''acme'' (addDays 0 d) 60 \<noteq> [])
   \<and> getNextAvailableSlot fullyBooked ''acme'' MEDIUM 0 = 1242000000
   \<and> (1::int) \<in> {0..<14}
   \<and> getDay (addDays 295200000 1) \<noteq> 0
   \<and> getAvailableSlots demoAppointments ''acme'' (addDays 295200000 1) 60 \<noteq> []
   \<and> \<not> (\<exists>d' \<in> {0..<1}. getDay (addDays 295200000 d') \<noteq> 0
          \<and> getAvailableSlots demoAppointments ''acme'' (addDays 295200000 d') 60 \<noteq> [])
   \<and> getNextAvailableSlot demoAppointments ''acme'' MEDIUM 295200000 = 374400000"
proof -
  have p: "MEDIUM \<noteq> EMERGENCY" by simp
  have booked: "\<forall>d \<in> {0..<14}. getDay (addDays 0 d) = 0
          \<or> getAvailableSlots fullyBooked ''acme'' (addDays 0 d) 60 = []"
    by code_simp
  have fallback: "setHours (addDays 0 14) 9 = 1242000000"
    by code_simp
  have day1: "(1::int) \<in> {0..<14}" "getDay (addDays 295200000 1) \<noteq> 0"
    "getAvailableSlots demoAppointments ''acme'' (addDays 295200000 1) 60 \<noteq> []"
    "\<forall>d' \<in> {0..<1}. getDay (addDays 295200000 d') = 0
          \<or> getAvailableSlots demoAppointments ''acme'' (addDays 295200000 d') 60 = []"
    by code_simp+
  have monday: "hd (getAvailableSlots demoAppointments ''acme'' (addDays 295200000 1) 60) = 374400000"
    by code_simp
  from getNextAvailableSlot_standard_search [OF p, of 0 fullyBooked "''acme''"] booked fallback
  have a: "getNextAvailableSlot fullyBooked ''acme'' MEDIUM 0 = 1242000000"
    by simp
  from getNextAvailableSlot_standard_search [OF p, of 295200000 demoAppointments "''acme''"] day1
  have "getNextAvailableSlot demoAppointments ''acme'' MEDIUM 295200000
        = hd (getAvailableSlots demoAppointments ''acme'' (addDays 295200000 1) 60)"
    by blast
  with monday have b: "getNextAvailableSlot demoAppointments ''acme'' MEDIUM 295200000 = 374400000"
    by simp
  from booked have booked': "\<not> (\<exists>d \<in> {0..<14}. getDay (addDays 0 d) \<noteq> 0
          \<and> getAvailableSlots fullyBooked ''acme'' (addDays 0 d) 60 \<noteq> [])"
    by blast
  from day1(4) have sunday': "\<not> (\<exists>d' \<in> {0..<1}. getDay (addDays 295200000 d') \<noteq> 0
          \<and> getAvailableSlots demoAppointments ''acme'' (addDays 295200000 d') 60 \<noteq> [])"
    by blast
  from p booked' a day1(1,2,3) sunday' b show ?thesis by blast
qed

lemma nextHour_bounds:
  "now < nextHour now \<and> nextHour now \<le> now + msPerHour \<and> nextHour now mod msPerHour = 0"
proof -
  have "0 \<le> now mod msPerHour" "now mod msPerHour < msPerHour"
    by (simp_all add: msPerHour_def)
  moreover have "(now - now mod msPerHour + msPerHour) mod msPerHour = 0"
    by (simp add: minus_mod_eq_mult_div)
  ultimately show ?thesis by (simp add: nextHour_def)
qed

lemma hd_filter_sorted:
  assumes "sorted xs" "x \<in> set xs" "P x"
  shows "hd (filter P xs) \<in> set xs \<and> P (hd (filter P xs)) \<and> hd (filter P xs) \<le> x"
proof -
  from assms have mem: "x \<in> set (filter P xs)" by simp
  then have ne: "filter P xs \<noteq> []" by (metis empty_iff list.set(1))
  then have "hd (filter P xs) \<in> set (filter P xs)" by (rule hd_in_set)
  then have "hd (filter P xs) \<in> set xs \<and> P (hd (filter P xs))" by simp
  moreover from assms(1) have "sorted (filter P xs)" by (rule sorted_wrt_filter)
  then have "hd (filter P xs) \<le> x" using mem by (rule hd_sorted_least)
  ultimately show ?thesis by simp
qed

text \<open>
  C3: with priority EMERGENCY, \<open>getNextAvailableSlot\<close> first looks at today's slots for
  a duration of 120 minutes that start at or after the next full hour (the first hour
  boundary strictly after now); if there is one it returns the earliest of them, and
  only if there is none does it run the standard day-by-day search.
\<close>

theorem getNextAvailableSlot_emergency_same_day_first:
  "(\<forall>slot \<in> set (getAvailableSlots appointments cid now 120). sqlDATE slot = sqlDATE now)
   \<and> now < nextHour now \<and> nextHour now \<le> now + msPerHour \<and> nextHour now mod msPerHour = 0
   \<and> ((\<exists>slot \<in> set (getAvailableSlots appointments cid now 120). nextHour now \<le> slot) \<longrightarrow>
         getNextAvailableSlot appointments cid EMERGENCY now
           \<in> set (getAvailableSlots appointments cid now 120)
         \<and> nextHour now \<le> getNextAvailableSlot appointments cid EMERGENCY now
         \<and> (\<forall>slot \<in> set (getAvailableSlots appointments cid now 120).
               nextHour now \<le> slot \<longrightarrow>
               getNextAvailableSlot appointments cid EMERGENCY now \<le> slot))
   \<and> ((\<forall>slot \<in> set (getAvailableSlots appointments cid now 120). slot < nextHour now) \<longrightarrow>
         getNextAvailableSlot appointments cid EMERGENCY now = standardSearch appointments cid now
         \<and> getNextAvailableSlot appointments cid EMERGENCY now
             = getNextAvailableSlot appointments cid MEDIUM now)"
proof -
  let ?S = "getAvailableSlots appointments cid now 120"
  let ?suitable = "filter (\<lambda>slot. nextHour now \<le> slot) ?S"
  have same_day: "\<forall>slot \<in> set ?S. sqlDATE slot = sqlDATE now"
    by (simp add: getAvailableSlots_same_day)
  have some: "(\<exists>slot \<in> set ?S. nextHour now \<le> slot) \<longrightarrow>
         getNextAvailableSlot appointments cid EMERGENCY now \<in> set ?S
         \<and> nextHour now \<le> getNextAvailableSlot appointments cid EMERGENCY now
         \<and> (\<forall>slot \<in> set ?S. nextHour now \<le> slot \<longrightarrow>
               getNextAvailableSlot appointments cid EMERGENCY now \<le> slot)"
  proof
    assume "\<exists>slot \<in> set ?S. nextHour now \<le> slot"
    then obtain x where x: "x \<in> set ?S" "nextHour now \<le> x" by blast
    then have "?suitable \<noteq> []" by (auto simp: filter_empty_conv)
    then have "getNextAvailableSlot appointments cid EMERGENCY now = hd ?suitable"
      by (cases ?suitable) (simp_all add: getNextAvailableSlot_def findEmergencySlot_def Let_def)
    moreover have "hd ?suitable \<in> set ?S \<and> nextHour now \<le> hd ?suitable"
      using hd_filter_sorted [OF getAvailableSlots_sorted x(1), of "\<lambda>slot. nextHour now \<le> slot"] x(2)
      by simp
    moreover have "\<forall>slot \<in> set ?S. nextHour now \<le> slot \<longrightarrow> hd ?suitable \<le> slot"
      using hd_filter_sorted [OF getAvailableSlots_sorted, of _ appointments cid now 120 "\<lambda>slot. nextHour now \<le> slot"]
      by blast
    ultimately show "getNextAvailableSlot appointments cid EMERGENCY now \<in> set ?S
         \<and> nextHour now \<le> getNextAvailableSlot appointments cid EMERGENCY now
         \<and> (\<forall>slot \<in> set ?S. nextHour now \<le> slot \<longrightarrow>
               getNextAvailableSlot appointments cid EMERGENCY now \<le> slot)"
      by simp
  qed
  have none: "(\<forall>slot \<in> set ?S. slot < nextHour now) \<longrightarrow>
         getNextAvailableSlot appointments cid EMERGENCY now = standardSearch appointments cid now
         \<and> getNextAvailableSlot appointments cid EMERGENCY now
             = getNextAvailableSlot appointments cid MEDIUM now"
  proof
    assume "\<forall>slot \<in> set ?S. slot < nextHour now"
    then have "?suitable = []" by (auto simp: filter_empty_conv)
    then show "getNextAvailableSlot appointments cid EMERGENCY now = standardSearch appointments cid now
         \<and> getNextAvailableSlot appointments cid EMERGENCY now
             = getNextAvailableSlot appointments cid MEDIUM now"
      by (simp add: getNextAvailableSlot_def findEmergencySlot_def Let_def)
  qed
  from same_day nextHour_bounds [of now] some none show ?thesis by blast
qed

theorem getNextAvailableSlot_emergency_same_day_first_witness:
  "(\<exists>slot \<in> set (getAvailableSlots demoAppointments ''acme'' 33000000 120). nextHour 33000000 \<le> slot)
   \<and> nextHour 33000000 = 36000000
   \<and> getNextAvailableSlot demoAppointments ''acme'' EMERGENCY 33000000 = 39600000
   \<and> \<not> (\<exists>slot \<in> set (getAvailableSlots demoAppointments ''acme'' 63000000 120).
            nextHour 63000000 \<le> slot)
   \<and> getNextAvailableSlot demoAppointments ''acme'' EMERGENCY 63000000
       = getNextAvailableSlot demoAppointments ''acme'' MEDIUM 63000000"
proof -
  have slots: "getAvailableSlots demoAppointments ''acme'' 33000000 120 =
      [28800000, 39600000, 41400000, 43200000, 45000000, 46800000, 48600000,
       50400000, 52200000, 54000000, 55800000, 57600000, 59400000]"
    by code_simp
  have nh: "nextHour 33000000 = 36000000" by code_simp
  have some: "\<exists>slot \<in> set (getAvailableSlots demoAppointments ''acme'' 33000000 120). nextHour 33000000 \<le> slot"
    unfolding slots nh by simp
  have none: "\<forall>slot \<in> set (getAvailableSlots demoAppointments ''acme'' 63000000 120). slot < nextHour 63000000"
    by code_simp
  note thm1 = getNextAvailableSlot_emergency_same_day_first [of demoAppointments "''acme''" 33000000]
  from thm1 some have r: "getNextAvailableSlot demoAppointments ''acme'' EMERGENCY 33000000
      \<in> set (getAvailableSlots demoAppointments ''acme'' 33000000 120)"
    "nextHour 33000000 \<le> getNextAvailableSlot demoAppointments ''acme'' EMERGENCY 33000000"
    "\<forall>slot \<in> set (getAvailableSlots demoAppointments ''acme'' 33000000 120).
               nextHour 33000000 \<le> slot \<longrightarrow>
               getNextAvailableSlot demoAppointments ''acme'' EMERGENCY 33000000 \<le> slot"
    by blast+
  from r(3) have "getNextAvailableSlot demoAppointments ''acme'' EMERGENCY 33000000 \<le> 39600000"
    unfolding slots nh by simp
  moreover from r(1,2) have "getNextAvailableSlot demoAppointments ''acme'' EMERGENCY 33000000 \<ge> 39600000"
    unfolding slots nh by auto
  ultimately have a: "getNextAvailableSlot demoAppointments ''acme'' EMERGENCY 33000000 = 39600000"
    by simp
  from getNextAvailableSlot_emergency_same_day_first [of demoAppointments "''acme''" 63000000] none
  have b: "getNextAvailableSlot demoAppointments ''acme'' EMERGENCY 63000000
       = getNextAvailableSlot demoAppointments ''acme'' MEDIUM 63000000"
    by blast
  from none have none': "\<not> (\<exists>slot \<in> set (getAvailableSlots demoAppointments ''acme'' 63000000 120).
            nextHour 63000000 \<le> slot)"
    by fastforce
  from some nh a none' b show ?thesis by blast
qed

section \<open>Business hours\<close>

lemma splitOn_no_separator: "sep \<notin> set s \<Longrightarrow> splitOn sep s = [s]"
  by (induction s) auto

lemma splitOn_first_separator:
  "sep \<notin> set a \<Longrightarrow> splitOn sep (a @ sep # b) = a # splitOn sep b"
  by (induction a) auto

lemma digits_no_separator:
  "list_all isDigit s \<Longrightarrow> CHR '' '' \<notin> set s \<and> CHR '':'' \<notin> set s"
  by (induction s) (auto simp: isDigit_def)

text \<open>
  What \<open>parseTime\<close> reads from a time written as hours, a colon, minutes, a blank and
  AM or PM, the way the business hours are stored.
\<close>

lemma parseTime_clock_string:
  assumes "list_all isDigit hs" "list_all isDigit ms" "Number hs = Some h" "Number ms = Some mi"
    and "period = ''AM'' \<or> period = ''PM''"
  shows "parseTime (hs @ '':'' @ ms @ '' '' @ period) =
           Some ((if period = ''PM'' \<and> h \<noteq> 12 then h + 12
                  else if period = ''AM'' \<and> h = 12 then 0 else h) * 100 + mi)"
proof -
  from assms(1,2) have nosp: "CHR '' '' \<notin> set (hs @ CHR '':'' # ms)"
    and nocolon: "CHR '':'' \<notin> set hs" "CHR '':'' \<notin> set ms"
    by (auto dest: digits_no_separator)
  have parts:
    "splitOn CHR '' '' (hs @ CHR '':'' # ms @ CHR '' '' # p) = [hs @ CHR '':'' # ms, p]"
    if "CHR '' '' \<notin> set p" for p
    using splitOn_first_separator [OF nosp, of p] that by (simp add: splitOn_no_separator)
  have fields: "splitOn CHR '':'' (hs @ CHR '':'' # ms) = [hs, ms]"
    using splitOn_first_separator [OF nocolon(1), of ms] nocolon(2)
    by (simp add: splitOn_no_separator)
  have "parseTime (hs @ CHR '':'' # ms @ CHR '' '' # period) =
           Some ((if period = ''PM'' \<and> h \<noteq> 12 then h + 12
                  else if period = ''AM'' \<and> h = 12 then 0 else h) * 100 + mi)"
    using assms(5)
    by (elim disjE) (simp_all add: parseTime_def parts fields assms(3,4) Let_def)
  then show ?thesis by simp
qed

lemma numLess_Some [simp]: "numLess (Some a) (Some b) \<longleftrightarrow> a < b"
  by (simp add: numLess_def)

text \<open>
  C5, as stated, fails: at the closing time itself the encoded time equals \<open>close\<close>, so
  it lies outside the half-open interval from \<open>open\<close> to \<open>close\<close>, and yet
  \<open>isAfterHours\<close> answers false. With the mock company's hours (8:00 AM to 6:00 PM on a
  Thursday) and the clock at 18:00 on Thursday 1 January 1970:
\<close>

theorem isAfterHours_closing_time_counterexample:
  "\<not> isClosed (hoursOfDay mockBusinessHours (getDay 64800000))
   \<and> parseTime (open_str (hoursOfDay mockBusinessHours (getDay 64800000))) = Some 800
   \<and> parseTime (close_str (hoursOfDay mockBusinessHours (getDay 64800000))) = Some 1800
   \<and> currentTime 64800000 = 1800
   \<and> currentTime 64800000 \<notin> {800 ..< 1800}
   \<and> \<not> isAfterHours mockBusinessHours 64800000"
  by code_simp

text \<open>
  C5, amended: \<open>isAfterHours\<close> is true when today is marked closed; and when today's
  opening and closing times parse to numbers, it is true if and only if today is marked
  closed or the current time, encoded as hours * 100 + minutes, lies outside the closed
  interval from \<open>open\<close> to \<open>close\<close>. An instant within the minute of the closing time
  counts as within hours.
\<close>

theorem isAfterHours_closed_interval:
  "(isClosed (hoursOfDay businessHours (getDay now)) \<longrightarrow> isAfterHours businessHours now)
   \<and> (parseTime (open_str (hoursOfDay businessHours (getDay now))) = Some openTime
        \<and> parseTime (close_str (hoursOfDay businessHours (getDay now))) = Some closeTime
      \<longrightarrow> (isAfterHours businessHours now \<longleftrightarrow>
             isClosed (hoursOfDay businessHours (getDay now))
             \<or> currentTime now \<notin> {openTime .. closeTime}))
   \<and> currentTime now = getHours now * 100 + getMinutes now"
  by (auto simp: isAfterHours_def Let_def currentTime_def)

theorem isAfterHours_closed_interval_witness:
  "isClosed (hoursOfDay mockBusinessHours (getDay 259200000))
   \<and> isAfterHours mockBusinessHours 259200000
   \<and> parseTime (open_str (hoursOfDay mockBusinessHours (getDay 64860000))) = Some 800
   \<and> parseTime (close_str (hoursOfDay mockBusinessHours (getDay 64860000))) = Some 1800
   \<and> currentTime 64860000 = 1801
   \<and> isAfterHours mockBusinessHours 64860000
   \<and> currentTime 36000000 = 1000
   \<and> \<not> isAfterHours mockBusinessHours 36000000"
proof -
  have sunday: "isClosed (hoursOfDay mockBusinessHours (getDay 259200000))"
    by code_simp
  have hours: "parseTime (open_str (hoursOfDay mockBusinessHours (getDay 64860000))) = Some 800"
    "parseTime (close_str (hoursOfDay mockBusinessHours (getDay 64860000))) = Some 1800"
    "parseTime (open_str (hoursOfDay mockBusinessHours (getDay 36000000))) = Some 800"
    "parseTime (close_str (hoursOfDay mockBusinessHours (getDay 36000000))) = Some 1800"
    "\<not> isClosed (hoursOfDay mockBusinessHours (getDay 36000000))"
    by code_simp+
  have clock: "currentTime 64860000 = 1801" "currentTime 36000000 = 1000"
    by code_simp+
  from isAfterHours_closed_interval [of mockBusinessHours 259200000] sunday
  have a: "isAfterHours mockBusinessHours 259200000" by blast
  from isAfterHours_closed_interval [of mockBusinessHours 64860000 800 1800] hours(1,2) clock(1)
  have b: "isAfterHours mockBusinessHours 64860000" by simp
  from isAfterHours_closed_interval [of mockBusinessHours 36000000 800 1800] hours(3,4,5) clock(2)
  have c: "\<not> isAfterHours mockBusinessHours 36000000" by simp
  from sunday a hours(1,2) clock b c show ?thesis by blast
qed

section \<open>The call registry\<close>

lemma activeCalls_emit [simp]: "activeCalls (emit room event now m) = activeCalls m"
  by (simp add: emit_def)

lemma activeCalls_runStatement [simp]: "activeCalls (runStatement q m) = activeCalls m"
  by (simp add: runStatement_def)

lemma activeCalls_handleEmergencyDetection [simp]:
  "activeCalls (handleEmergencyDetection call now m) = activeCalls m"
  by (simp add: handleEmergencyDetection_def Let_def split: option.splits)

text \<open>What \<open>updateCall\<close> does to the registry: the keys stay, the flag of the one session
  is the assigned flag, or true when a transcript with an emergency keyword came with it.\<close>

lemma registered_updateCall: "registered (updateCall k u now m) cid = registered m cid"
  by (cases "map_of (activeCalls m) k")
     (auto simp: updateCall_def registered_def Let_def update_conv')

lemma flagged_updateCall:
  "flagged (updateCall k u now m) cid =
     (if cid = k \<and> registered m k then
        (case upd_isEmergency u of
           NotSet \<Rightarrow> flagged m k
         | SetUndefined \<Rightarrow> False
         | SetTo b \<Rightarrow> b)
        \<or> (truthy (upd_transcript u) \<and> detectEmergency (textOf (upd_transcript u)))
      else flagged m cid)"
  by (cases "map_of (activeCalls m) k"; cases "upd_isEmergency u")
     (auto simp: updateCall_def flagged_def registered_def Let_def update_conv' objectAssign_def
        assignProperty_def)

lemma registered_endCall:
  "registered (endCall k reason now m) cid = (cid \<noteq> k \<and> registered m cid)"
  by (cases "map_of (activeCalls m) k")
     (auto simp: endCall_def registered_def Let_def delete_conv')

lemma flagged_endCall:
  "flagged (endCall k reason now m) cid = (cid \<noteq> k \<and> flagged m cid)"
  by (cases "map_of (activeCalls m) k")
     (auto simp: endCall_def flagged_def Let_def delete_conv')

lemma handleVapiUpdate_cases:
  "handleVapiUpdate v message now m = m
   \<or> (\<exists>k u. upd_isEmergency u = NotSet \<and> handleVapiUpdate v message now m = updateCall k u now m)"
proof (cases "findByVapiId v (map snd (activeCalls m))")
  case (Found ident call)
  show ?thesis
  proof (cases "role message = ''user''")
    case False
    with Found show ?thesis by (simp add: handleVapiUpdate_def)
  next
    case True
    let ?u = "noUpdates\<lparr> upd_transcript := SetTo (templateString (transcript call) @ [CHR 0x0A]
                               @ ''Customer: '' @ content message),
                          upd_sentiment := SetTo (analyzeSentiment (content message)) \<rparr>"
    have "upd_isEmergency ?u = NotSet" by (simp add: noUpdates_def)
    moreover from Found True have "handleVapiUpdate v message now m = updateCall ident ?u now m"
      by (simp add: handleVapiUpdate_def Let_def)
    ultimately show ?thesis by blast
  qed
next
  case NotFound
  then show ?thesis by (simp add: handleVapiUpdate_def)
next
  case TypeError
  then show ?thesis by (simp add: handleVapiUpdate_def)
qed

lemma updateCall_keeps_flag:
  assumes "upd_isEmergency u = NotSet \<or> upd_isEmergency u = SetTo True" "flagged m cid"
  shows "flagged (updateCall k u now m) cid"
proof -
  from assms(2) have "registered m cid"
    by (auto simp: flagged_def registered_def split: option.splits)
  with assms show ?thesis by (auto simp: flagged_updateCall)
qed

lemma perform_keeps_flag:
  assumes "keepsFlag operation" "flagged m cid"
  shows "flagged (perform operation m) cid \<or> \<not> registered (perform operation m) cid"
proof (cases operation)
  case (UpdateCall k u now)
  with assms show ?thesis
    by (auto simp: keepsFlag_def intro: updateCall_keeps_flag)
next
  case (HandleVapiUpdate v message now)
  from handleVapiUpdate_cases [of v message now m]
  consider "handleVapiUpdate v message now m = m"
    | k u where "upd_isEmergency u = NotSet" "handleVapiUpdate v message now m = updateCall k u now m"
    by blast
  then show ?thesis
  proof cases
    case 1
    with assms(2) show ?thesis unfolding HandleVapiUpdate by simp
  next
    case 2
    from 2(1) assms(2) have "flagged (updateCall k u now m) cid"
      by (intro updateCall_keeps_flag) simp_all
    with 2(2) show ?thesis unfolding HandleVapiUpdate by simp
  qed
next
  case (EndCall k reason now)
  with assms show ?thesis by (auto simp: flagged_endCall registered_endCall)
qed

lemma perform_stays_evicted:
  assumes "\<not> registered m cid"
  shows "\<not> registered (perform operation m) cid"
proof (cases operation)
  case (UpdateCall k u now)
  with assms show ?thesis by (simp add: registered_updateCall)
next
  case (HandleVapiUpdate v message now)
  from handleVapiUpdate_cases [of v message now m] assms show ?thesis
    unfolding HandleVapiUpdate by (auto simp: registered_updateCall)
next
  case (EndCall k reason now)
  with assms show ?thesis by (simp add: registered_endCall)
qed

lemma performAll_stays_evicted:
  "\<not> registered m cid \<Longrightarrow> \<not> registered (performAll ops m) cid"
  by (induction ops arbitrary: m) (simp_all add: perform_stays_evicted)

lemma performAll_keeps_flag:
  "\<forall>operation \<in> set ops. keepsFlag operation \<Longrightarrow> flagged m cid \<Longrightarrow>
   flagged (performAll ops m) cid \<or> \<not> registered (performAll ops m) cid"
proof (induction ops arbitrary: m)
  case Nil
  then show ?case by simp
next
  case (Cons operation ops)
  from Cons.prems have "flagged (perform operation m) cid \<or> \<not> registered (perform operation m) cid"
    using perform_keeps_flag [of operation m cid] by simp
  then show ?case
  proof
    assume "flagged (perform operation m) cid"
    with Cons.prems Cons.IH [of "perform operation m"] show ?thesis by simp
  next
    assume "\<not> registered (perform operation m) cid"
    then show ?thesis by (simp add: performAll_stays_evicted)
  qed
qed

lemma flaggedMonitor_flagged: "flagged flaggedMonitor ''call-1''"
  by code_simp

text \<open>
  C2, as stated, fails: \<open>updateCall\<close> copies every property of its \<open>updates\<close> argument
  into the session with \<open>Object.assign\<close>, the flag included. An update that carries
  \<open>isEmergency: false\<close>, or carries \<open>isEmergency\<close> with the value \<open>undefined\<close>, and no
  transcript with an emergency keyword, takes a flagged session back to unflagged while
  it stays registered.
\<close>

theorem isEmergency_reverts_counterexample:
  "flagged flaggedMonitor ''call-1''
   \<and> registered
        (perform (UpdateCall ''call-1'' (noUpdates\<lparr> upd_isEmergency := SetTo False \<rparr>) 2000)
           flaggedMonitor) ''call-1''
   \<and> \<not> flagged
        (perform (UpdateCall ''call-1'' (noUpdates\<lparr> upd_isEmergency := SetTo False \<rparr>) 2000)
           flaggedMonitor) ''call-1''
   \<and> registered
        (perform (UpdateCall ''call-1'' (noUpdates\<lparr> upd_isEmergency := SetUndefined \<rparr>) 2000)
           flaggedMonitor) ''call-1''
   \<and> \<not> flagged
        (perform (UpdateCall ''call-1'' (noUpdates\<lparr> upd_isEmergency := SetUndefined \<rparr>) 2000)
           flaggedMonitor) ''call-1''"
  by code_simp

text \<open>
  C2, amended: along every sequence of \<open>updateCall\<close>, \<open>handleVapiUpdate\<close> and \<open>endCall\<close>
  operations in which every \<open>updateCall\<close> is passed updates that have no \<open>isEmergency\<close>
  property or have it with the value \<open>true\<close>, a session whose flag is true keeps it true
  for as long as it is registered, and a session that is not registered stays
  unregistered. The other properties of the updates are arbitrary, present with
  \<open>undefined\<close> included. The state the sequence starts from is arbitrary, so this holds
  from every point of a session's life onwards.
\<close>

theorem isEmergency_monotone_unless_overwritten:
  assumes "\<forall>operation \<in> set ops. keepsFlag operation"
  shows "(flagged m cid \<longrightarrow>
            flagged (performAll ops m) cid \<or> \<not> registered (performAll ops m) cid)
       \<and> (\<not> registered m cid \<longrightarrow> \<not> registered (performAll ops m) cid)"
  using assms by (simp add: performAll_keeps_flag performAll_stays_evicted)

theorem isEmergency_monotone_unless_overwritten_witness:
  "keepsFlag (HandleVapiUpdate ''call-1'' \<lparr> role = ''user'', content = ''thank you'' \<rparr> 3000)
   \<and> keepsFlag (UpdateCall ''call-1''
        (noUpdates\<lparr> upd_status := SetTo in_progress, upd_transcript := SetUndefined \<rparr>) 4000)
   \<and> flagged flaggedMonitor ''call-1''
   \<and> registered
        (performAll
           [HandleVapiUpdate ''call-1'' \<lparr> role = ''user'', content = ''thank you'' \<rparr> 3000,
            UpdateCall ''call-1''
              (noUpdates\<lparr> upd_status := SetTo in_progress, upd_transcript := SetUndefined \<rparr>) 4000]
           flaggedMonitor) ''call-1''
   \<and> flagged
        (performAll
           [HandleVapiUpdate ''call-1'' \<lparr> role = ''user'', content = ''thank you'' \<rparr> 3000,
            UpdateCall ''call-1''
              (noUpdates\<lparr> upd_status := SetTo in_progress, upd_transcript := SetUndefined \<rparr>) 4000]
           flaggedMonitor) ''call-1''"
proof -
  let ?ops = "[HandleVapiUpdate ''call-1'' \<lparr> role = ''user'', content = ''thank you'' \<rparr> 3000,
               UpdateCall ''call-1''
                 (noUpdates\<lparr> upd_status := SetTo in_progress, upd_transcript := SetUndefined \<rparr>) 4000]"
  have k: "keepsFlag (HandleVapiUpdate ''call-1'' \<lparr> role = ''user'', content = ''thank you'' \<rparr> 3000)"
    "keepsFlag (UpdateCall ''call-1''
        (noUpdates\<lparr> upd_status := SetTo in_progress, upd_transcript := SetUndefined \<rparr>) 4000)"
    by (simp_all add: keepsFlag_def noUpdates_def)
  then have all: "\<forall>operation \<in> set ?ops. keepsFlag operation" by simp
  have still: "registered (performAll ?ops flaggedMonitor) ''call-1''"
    by code_simp
  from isEmergency_monotone_unless_overwritten [OF all, of flaggedMonitor "''call-1''"]
    flaggedMonitor_flagged still
  have "flagged (performAll ?ops flaggedMonitor) ''call-1''"
    by blast
  with k flaggedMonitor_flagged still show ?thesis by blast
qed

section \<open>Ending a call twice\<close>

lemma endCall_absent: "map_of (activeCalls m) callId = None \<Longrightarrow> endCall callId reason now m = m"
  by (simp add: endCall_def)

lemma endCall_evicts: "map_of (activeCalls (endCall callId reason now m)) callId = None"
  by (cases "map_of (activeCalls m) callId")
     (simp_all add: endCall_def Let_def delete_conv')

text \<open>
  C9: \<open>endCall\<close> on a call id that is not in the live registry, because it never was
  or because it has been evicted, returns the state it was given: the registry, the
  statements run on the database, the events sent to observers and the alerts are all
  unchanged. After \<open>endCall\<close> the id is not in the registry any more, so a second
  \<open>endCall\<close> for the same id changes nothing.
\<close>

theorem endCall_after_eviction_changes_nothing:
  "(map_of (activeCalls m) callId = None \<longrightarrow> endCall callId reason now m = m)
   \<and> map_of (activeCalls (endCall callId reason now m)) callId = None
   \<and> endCall callId reason' now' (endCall callId reason now m) = endCall callId reason now m"
  by (simp add: endCall_absent endCall_evicts)

theorem endCall_after_eviction_changes_nothing_witness:
  "map_of (activeCalls emptyMonitor) ''call-1'' = None
   \<and> endCall ''call-1'' hangup 5000 emptyMonitor = emptyMonitor
   \<and> map_of (activeCalls flaggedMonitor) ''call-1'' \<noteq> None
   \<and> endCall ''call-1'' completed 7000 (endCall ''call-1'' hangup 6000 flaggedMonitor)
       = endCall ''call-1'' hangup 6000 flaggedMonitor"
proof -
  have absent: "map_of (activeCalls emptyMonitor) ''call-1'' = None"
    by (simp add: emptyMonitor_def)
  have present: "map_of (activeCalls flaggedMonitor) ''call-1'' \<noteq> None"
    by code_simp
  from endCall_after_eviction_changes_nothing [of emptyMonitor "''call-1''" hangup 5000] absent
  have a: "endCall ''call-1'' hangup 5000 emptyMonitor = emptyMonitor"
    by blast
  from endCall_after_eviction_changes_nothing [of flaggedMonitor "''call-1''" hangup 6000 completed 7000]
  have b: "endCall ''call-1'' completed 7000 (endCall ''call-1'' hangup 6000 flaggedMonitor)
       = endCall ''call-1'' hangup 6000 flaggedMonitor"
    by blast
  from absent a present b show ?thesis by blast
qed

section \<open>Price estimation\<close>

lemma estimateServicePrice_parts:
  "estimateServicePrice serviceType e a =
     (''For '' @ replaceUnderscore (pickServiceName serviceType) @ '' service, our typical range is '')
     @ CHR ''$'' # (numberToString (fst (estimatedRange serviceType e a)) @ ''-'')
     @ CHR ''$'' # (numberToString (snd (estimatedRange serviceType e a)) @ priceEnding e a)"
  by (cases "estimatedRange serviceType e a")
     (simp add: estimateServicePrice_def priceEnding_def Let_def)

lemma showNat_digits: "set (showNat n) \<subseteq> set ''0123456789''"
proof (induction n rule: showNat.induct)
  case (1 n)
  have digit: "digitChar d \<in> set ''0123456789''" if "d < 10" for d
    unfolding digitChar_def using that by (intro nth_mem) simp
  show ?case
  proof (cases "n < 10")
    case True
    with digit [of n] show ?thesis by (simp add: showNat.simps [of n])
  next
    case False
    have "n mod 10 < 10" by simp
    with "1.IH" [OF False] digit [of "n mod 10"] False show ?thesis
      by (simp add: showNat.simps [of n])
  qed
qed

lemma numberToString_no_blank: "CHR '' '' \<notin> set (numberToString x)"
proof (cases x)
  case None
  then show ?thesis by (simp add: numberToString_def)
next
  case (Some n)
  have "CHR '' '' \<notin> set (showNat m)" for m
    using showNat_digits [of m] by auto
  with Some show ?thesis by (simp add: numberToString_def)
qed

lemma sublist_split_at_char:
  assumes "c \<notin> set k"
  shows "sublist k (xs @ c # ys) \<longleftrightarrow> sublist k xs \<or> sublist k ys"
proof
  assume "sublist k (xs @ c # ys)"
  then consider "sublist k xs" | "sublist k (c # ys)"
    | k1 k2 where "k = k1 @ k2" "suffix k1 xs" "prefix k2 (c # ys)"
    by (auto simp: sublist_append [of k xs])
  then show "sublist k xs \<or> sublist k ys"
  proof cases
    case 1
    then show ?thesis by simp
  next
    case 2
    then consider "prefix k (c # ys)" | "sublist k ys" by (auto simp: sublist_Cons_right)
    then show ?thesis
    proof cases
      case 1
      with assms have "k = []" by (cases k) auto
      then show ?thesis by simp
    next
      case 2
      then show ?thesis by simp
    qed
  next
    case 3
    from 3(1) assms have "c \<notin> set k2" by simp
    with 3(3) have "k2 = []" by (cases k2) auto
    with 3 have "suffix k xs" by simp
    then show ?thesis by (auto dest: suffix_imp_sublist)
  qed
next
  assume "sublist k xs \<or> sublist k ys"
  then show "sublist k (xs @ c # ys)"
  proof
    assume "sublist k xs"
    then show ?thesis by (metis sublist_append)
  next
    assume "sublist k ys"
    then have "sublist k (c # ys)" by (simp add: sublist_Cons_right)
    then show ?thesis by (metis sublist_append)
  qed
qed

lemma not_sublist_sandwich:
  assumes mid: "\<not> sublist k n"
    and pre: "\<not> sublist k a" "\<forall>p \<in> set (prefixes k). p \<noteq> [] \<longrightarrow> \<not> suffix p a"
    and post: "\<not> sublist k r" "\<forall>s \<in> set (suffixes k). s \<noteq> [] \<longrightarrow> \<not> prefix s r"
  shows "\<not> sublist k (a @ n @ r)"
proof
  assume "sublist k (a @ n @ r)"
  then consider "sublist k a" | "sublist k (n @ r)"
    | p1 p2 where "k = p1 @ p2" "suffix p1 a" "prefix p2 (n @ r)"
    by (auto simp: sublist_append [of k a])
  then have "sublist k (n @ r)"
  proof cases
    case 1
    with pre show ?thesis by simp
  next
    case 2
    then show ?thesis .
  next
    case 3
    from 3(1) have "p1 \<in> set (prefixes k)" by simp
    with pre(2) 3(2) have "p1 = []" by blast
    with 3 show ?thesis by (auto intro: prefix_imp_sublist)
  qed
  then consider "sublist k n" | "sublist k r"
    | s1 s2 where "k = s1 @ s2" "suffix s1 n" "prefix s2 r"
    by (auto simp: sublist_append [of k n])
  then show False
  proof cases
    case 1
    with mid show ?thesis by simp
  next
    case 2
    with post show ?thesis by simp
  next
    case 3
    from 3(1) have "s2 \<in> set (suffixes k)" by (simp add: suffix_def)
    with post(2) 3(3) have "s2 = []" by blast
    with 3 have "suffix k n" by simp
    with mid show ?thesis by (auto dest: suffix_imp_sublist)
  qed
qed

text \<open>
  A phrase with a blank and without a dollar sign occurs in a price text only if it
  occurs in the service name or in the fixed text around the name and the numbers.
\<close>

lemma phrase_not_in_price_text:
  assumes blank: "CHR '' '' \<in> set k" and dollar: "CHR ''$'' \<notin> set k"
    and name: "\<not> sublist k (replaceUnderscore (pickServiceName serviceType))"
    and before: "\<not> sublist k ''For ''"
      "\<forall>p \<in> set (prefixes k). p \<noteq> [] \<longrightarrow> \<not> suffix p ''For ''"
    and after: "\<not> sublist k '' service, our typical range is ''"
      "\<forall>s \<in> set (suffixes k). s \<noteq> [] \<longrightarrow> \<not> prefix s '' service, our typical range is ''"
    and ending: "\<not> sublist k (priceEnding e a)"
      "\<forall>s \<in> set (suffixes k). s \<noteq> [] \<longrightarrow> \<not> prefix s (priceEnding e a)"
  shows "\<not> sublist k (estimateServicePrice serviceType e a)"
proof -
  let ?lo = "numberToString (fst (estimatedRange serviceType e a))"
  let ?hi = "numberToString (snd (estimatedRange serviceType e a))"
  from blank have nonempty: "k \<noteq> []" by auto
  have front: "\<not> sublist k (''For '' @ replaceUnderscore (pickServiceName serviceType)
                   @ '' service, our typical range is '')"
    using name before after by (rule not_sublist_sandwich)
  have lo: "\<not> sublist k (?lo @ ''-'')"
  proof
    assume "sublist k (?lo @ ''-'')"
    then have "set k \<subseteq> set (?lo @ ''-'')" by (rule set_mono_sublist)
    with blank numberToString_no_blank [of "fst (estimatedRange serviceType e a)"]
    show False by auto
  qed
  have hi_only: "\<not> sublist k ?hi"
  proof
    assume "sublist k ?hi"
    then have "set k \<subseteq> set ?hi" by (rule set_mono_sublist)
    with blank numberToString_no_blank [of "snd (estimatedRange serviceType e a)"]
    show False by auto
  qed
  have "\<not> sublist k ([] @ ?hi @ priceEnding e a)"
    using hi_only _ _ ending by (rule not_sublist_sandwich) (simp_all add: nonempty)
  then have hi: "\<not> sublist k (?hi @ priceEnding e a)" by simp
  from front lo hi show ?thesis
    unfolding estimateServicePrice_parts
    by (simp only: sublist_split_at_char [OF dollar] simp_thms)
qed


lemma emergencyDisclosure_chars:
  "CHR '' '' \<in> set emergencyDisclosure" "CHR ''$'' \<notin> set emergencyDisclosure"
  by (simp_all add: emergencyDisclosure_def)

lemma afterHoursDisclosure_chars:
  "CHR '' '' \<in> set afterHoursDisclosure" "CHR ''$'' \<notin> set afterHoursDisclosure"
  by (simp_all add: afterHoursDisclosure_def)

lemma emergencyDisclosure_not_in_frame:
  "\<not> sublist emergencyDisclosure ''For ''"
  "\<forall>p \<in> set (prefixes emergencyDisclosure). p \<noteq> [] \<longrightarrow> \<not> suffix p ''For ''"
  "\<not> sublist emergencyDisclosure '' service, our typical range is ''"
  "\<forall>s \<in> set (suffixes emergencyDisclosure). s \<noteq> [] \<longrightarrow>
      \<not> prefix s '' service, our typical range is ''"
  by code_simp+

lemma afterHoursDisclosure_not_in_frame:
  "\<not> sublist afterHoursDisclosure ''For ''"
  "\<forall>p \<in> set (prefixes afterHoursDisclosure). p \<noteq> [] \<longrightarrow> \<not> suffix p ''For ''"
  "\<not> sublist afterHoursDisclosure '' service, our typical range is ''"
  "\<forall>s \<in> set (suffixes afterHoursDisclosure). s \<noteq> [] \<longrightarrow>
      \<not> prefix s '' service, our typical range is ''"
  by code_simp+

lemma emergencyDisclosure_not_in_ending:
  "\<not> sublist emergencyDisclosure (priceEnding False a)"
  "\<forall>s \<in> set (suffixes emergencyDisclosure). s \<noteq> [] \<longrightarrow> \<not> prefix s (priceEnding False a)"
proof -
  have "\<not> sublist emergencyDisclosure (priceEnding False False)"
    "\<not> sublist emergencyDisclosure (priceEnding False True)"
    by code_simp+
  then show "\<not> sublist emergencyDisclosure (priceEnding False a)" by (cases a) simp_all
  have "\<forall>s \<in> set (suffixes emergencyDisclosure). s \<noteq> [] \<longrightarrow> \<not> prefix s (priceEnding False False)"
    "\<forall>s \<in> set (suffixes emergencyDisclosure). s \<noteq> [] \<longrightarrow> \<not> prefix s (priceEnding False True)"
    by code_simp+
  then show "\<forall>s \<in> set (suffixes emergencyDisclosure). s \<noteq> [] \<longrightarrow>
      \<not> prefix s (priceEnding False a)"
    by (cases a) simp_all
qed

lemma afterHoursDisclosure_not_in_ending:
  "\<not> sublist afterHoursDisclosure (priceEnding e False)"
  "\<forall>s \<in> set (suffixes afterHoursDisclosure). s \<noteq> [] \<longrightarrow> \<not> prefix s (priceEnding e False)"
proof -
  have "\<not> sublist afterHoursDisclosure (priceEnding False False)"
    "\<not> sublist afterHoursDisclosure (priceEnding True False)"
    by code_simp+
  then show "\<not> sublist afterHoursDisclosure (priceEnding e False)" by (cases e) simp_all
  have "\<forall>s \<in> set (suffixes afterHoursDisclosure). s \<noteq> [] \<longrightarrow> \<not> prefix s (priceEnding False False)"
    "\<forall>s \<in> set (suffixes afterHoursDisclosure). s \<noteq> [] \<longrightarrow> \<not> prefix s (priceEnding True False)"
    by code_simp+
  then show "\<forall>s \<in> set (suffixes afterHoursDisclosure). s \<noteq> [] \<longrightarrow>
      \<not> prefix s (priceEnding e False)"
    by (cases e) simp_all
qed

lemma emergency_phrase_only_if:
  assumes "\<not> sublist emergencyDisclosure (replaceUnderscore (pickServiceName serviceType))"
  shows "\<not> sublist emergencyDisclosure (estimateServicePrice serviceType False a)"
  using emergencyDisclosure_chars assms emergencyDisclosure_not_in_frame
    emergencyDisclosure_not_in_ending
  by (rule phrase_not_in_price_text)

lemma afterHours_phrase_only_if:
  assumes "\<not> sublist afterHoursDisclosure (replaceUnderscore (pickServiceName serviceType))"
  shows "\<not> sublist afterHoursDisclosure (estimateServicePrice serviceType e False)"
  using afterHoursDisclosure_chars assms afterHoursDisclosure_not_in_frame
    afterHoursDisclosure_not_in_ending
  by (rule phrase_not_in_price_text)

lemma sublist_in_tail: "sublist k ys \<Longrightarrow> sublist k (xs @ ys)"
  by (metis sublist_append)

lemma estimateServicePrice_ends:
  "\<exists>front. estimateServicePrice serviceType e a = front @ priceEnding e a"
  by (cases "estimatedRange serviceType e a")
     (simp add: estimateServicePrice_def priceEnding_def Let_def)

lemma emergency_phrase_if:
  "sublist emergencyDisclosure (estimateServicePrice serviceType True a)"
proof -
  have "priceEnding True a = '' ('' @ emergencyDisclosure @
      ('')'' @ (if a then '' (after-hours rates apply)'' else [])
         @ ''. The final price depends on the specific issue and parts needed. We provide upfront pricing before any work begins.'')"
    by (simp add: priceEnding_def emergencyDisclosure_def)
  then have "sublist emergencyDisclosure (priceEnding True a)"
    by (simp only: sublist_appendI)
  with estimateServicePrice_ends [of serviceType True a] show ?thesis
    by (auto intro: sublist_in_tail)
qed

lemma afterHours_phrase_if:
  "sublist afterHoursDisclosure (estimateServicePrice serviceType e True)"
proof -
  have "priceEnding e True = ((if e then '' (emergency service rates apply)'' else []) @ '' ('')
      @ afterHoursDisclosure @
      ''). The final price depends on the specific issue and parts needed. We provide upfront pricing before any work begins.''"
    by (simp add: priceEnding_def afterHoursDisclosure_def)
  then have "sublist afterHoursDisclosure (priceEnding e True)"
    by (simp only: sublist_appendI)
  with estimateServicePrice_ends [of serviceType e True] show ?thesis
    by (auto intro: sublist_in_tail)
qed

lemma heating_both_surcharges:
  "estimatedRange [''heating''] True True = (Some 281, Some 1500)"
  "estimateServicePrice [''heating''] True True =
     ''For heating service, our typical range is $281-$1500 (emergency service rates apply) (after-hours rates apply). The final price depends on the specific issue and parts needed. We provide upfront pricing before any work begins.''"
  by code_simp+

lemma surchargeMultiplier_values:
  "surchargeMultiplier e a = (if e then 3 / 2 else 1) * (if a then 5 / 4 else 1)"
  by (simp add: surchargeMultiplier_def Let_def)

lemma estimatedRange_of_entry:
  assumes "pickBasePrice (pickServiceName serviceType) = PriceEntry lo hi"
  shows "estimatedRange serviceType e a =
           (Some (mathRound (of_int lo * ((if e then 3 / 2 else 1) * (if a then 5 / 4 else 1)))),
            Some (mathRound (of_int hi * ((if e then 3 / 2 else 1) * (if a then 5 / 4 else 1)))))"
  using assms by (simp add: estimatedRange_def surchargeMultiplier_values Let_def)



section \<open>Service types as the classifier returns them\<close>

lemma extractServiceType_categories:
  "set (extractServiceType t) \<subseteq> set serviceCategories"
proof -
  let ?matched = "map fst (filter (\<lambda>(service, keywords). mentions t keywords) serviceMap)"
  have "set ?matched \<subseteq> set (map fst serviceMap)" by auto
  then show ?thesis
    by (auto simp: extractServiceType_eq Let_def serviceCategories_def)
qed

lemma serviceCategories_facts:
  "\<forall>name \<in> set serviceCategories.
      name \<noteq> [] \<and> name \<notin> set objectPrototypeMembers
      \<and> \<not> sublist emergencyDisclosure (replaceUnderscore name)
      \<and> \<not> sublist afterHoursDisclosure (replaceUnderscore name)"
  by code_simp

lemma pickServiceName_classified:
  "pickServiceName (extractServiceType t) \<in> set serviceCategories"
proof (cases "extractServiceType t")
  case Nil
  then show ?thesis by (simp add: pickServiceName_def serviceCategories_def)
next
  case (Cons first rest)
  with extractServiceType_categories [of t] have "first \<in> set serviceCategories" by simp
  with Cons serviceCategories_facts show ?thesis by (auto simp: pickServiceName_def)
qed

lemma pickBasePrice_not_inherited:
  assumes "name \<notin> set objectPrototypeMembers"
  shows "\<exists>lo hi. pickBasePrice name = PriceEntry lo hi"
proof (cases "map_of basePrices name")
  case None
  with assms show ?thesis by (simp add: pickBasePrice_def basePricesGet_def)
next
  case (Some found)
  then show ?thesis by (cases found) (simp add: pickBasePrice_def basePricesGet_def)
qed

text \<open>
  C8: \<open>estimateServicePrice\<close> composes the surcharges by multiplication, not by
  addition. Whenever the service name selects a price entry with base range \<open>lo\<close> to
  \<open>hi\<close>, the quoted numbers are \<open>lo\<close> and \<open>hi\<close> times 1.5 if emergency, times 1.25 if
  after-hours, each rounded to the nearest integer (a half upwards), so times
  1.5 * 1.25 = 1.875 with both flags, and the text quotes exactly these numbers. For
  every list whose service name is a service type, as for every list the classifier
  returns, there is such a price entry, and the text contains "emergency service rates
  apply" if and only if the emergency flag is true and "after-hours rates apply" if and
  only if the after-hours flag is true. For \<open>["heating"]\<close> with both flags the range is
  281 to 1500, the heating range 150 to 800 times 1.875, rounded.
\<close>

theorem estimateServicePrice_surcharges_multiply:
  "surchargeMultiplier True True = 15 / 8
   \<and> (pickBasePrice (pickServiceName serviceType) = PriceEntry lo hi \<longrightarrow>
        estimatedRange serviceType e a =
          (Some (mathRound (of_int lo * ((if e then 3 / 2 else 1) * (if a then 5 / 4 else 1)))),
           Some (mathRound (of_int hi * ((if e then 3 / 2 else 1) * (if a then 5 / 4 else 1)))))
        \<and> estimatedRange serviceType True True =
          (Some (mathRound (of_int lo * (3 / 2 * (5 / 4)))),
           Some (mathRound (of_int hi * (3 / 2 * (5 / 4))))))
   \<and> estimateServicePrice serviceType e a =
        ''For '' @ replaceUnderscore (pickServiceName serviceType)
        @ '' service, our typical range is $''
        @ numberToString (fst (estimatedRange serviceType e a)) @ ''-$''
        @ numberToString (snd (estimatedRange serviceType e a)) @ priceEnding e a
   \<and> (e \<longrightarrow> sublist emergencyDisclosure (estimateServicePrice serviceType e a))
   \<and> (a \<longrightarrow> sublist afterHoursDisclosure (estimateServicePrice serviceType e a))
   \<and> (pickServiceName serviceType \<in> set serviceCategories \<longrightarrow>
        (\<exists>lo' hi'. pickBasePrice (pickServiceName serviceType) = PriceEntry lo' hi')
        \<and> (sublist emergencyDisclosure (estimateServicePrice serviceType e a) \<longleftrightarrow> e)
        \<and> (sublist afterHoursDisclosure (estimateServicePrice serviceType e a) \<longleftrightarrow> a))
   \<and> pickServiceName (extractServiceType t) \<in> set serviceCategories
   \<and> (sublist emergencyDisclosure (estimateServicePrice (extractServiceType t) e a) \<longleftrightarrow> e)
   \<and> (sublist afterHoursDisclosure (estimateServicePrice (extractServiceType t) e a) \<longleftrightarrow> a)
   \<and> estimatedRange [''heating''] True True = (Some 281, Some 1500)
   \<and> mathRound (150 * (3 / 2 * (5 / 4))) = 281 \<and> mathRound (800 * (3 / 2 * (5 / 4))) = 1500
   \<and> estimateServicePrice [''heating''] True True =
        ''For heating service, our typical range is $281-$1500 (emergency service rates apply) (after-hours rates apply). The final price depends on the specific issue and parts needed. We provide upfront pricing before any work begins.''"
proof -
  have both: "surchargeMultiplier True True = 15 / 8"
    by (simp add: surchargeMultiplier_def Let_def)
  have numbers: "pickBasePrice (pickServiceName serviceType) = PriceEntry lo hi \<longrightarrow>
        estimatedRange serviceType e a =
          (Some (mathRound (of_int lo * ((if e then 3 / 2 else 1) * (if a then 5 / 4 else 1)))),
           Some (mathRound (of_int hi * ((if e then 3 / 2 else 1) * (if a then 5 / 4 else 1)))))
        \<and> estimatedRange serviceType True True =
          (Some (mathRound (of_int lo * (3 / 2 * (5 / 4)))),
           Some (mathRound (of_int hi * (3 / 2 * (5 / 4)))))"
    using estimatedRange_of_entry [of serviceType lo hi e a]
      estimatedRange_of_entry [of serviceType lo hi True True]
    by simp
  have quoted: "estimateServicePrice serviceType e a =
        ''For '' @ replaceUnderscore (pickServiceName serviceType)
        @ '' service, our typical range is $''
        @ numberToString (fst (estimatedRange serviceType e a)) @ ''-$''
        @ numberToString (snd (estimatedRange serviceType e a)) @ priceEnding e a"
    by (simp add: estimateServicePrice_parts)
  have e_if: "e \<longrightarrow> sublist emergencyDisclosure (estimateServicePrice st e a)" for st
    using emergency_phrase_if [of st a] by auto
  have a_if: "a \<longrightarrow> sublist afterHoursDisclosure (estimateServicePrice st e a)" for st
    using afterHours_phrase_if [of st e] by auto
  have typed: "(\<exists>lo' hi'. pickBasePrice (pickServiceName st) = PriceEntry lo' hi')
        \<and> (sublist emergencyDisclosure (estimateServicePrice st e a) \<longleftrightarrow> e)
        \<and> (sublist afterHoursDisclosure (estimateServicePrice st e a) \<longleftrightarrow> a)"
    if "pickServiceName st \<in> set serviceCategories" for st
  proof -
    from that serviceCategories_facts
    have name: "pickServiceName st \<notin> set objectPrototypeMembers"
      "\<not> sublist emergencyDisclosure (replaceUnderscore (pickServiceName st))"
      "\<not> sublist afterHoursDisclosure (replaceUnderscore (pickServiceName st))"
      by blast+
    have "sublist emergencyDisclosure (estimateServicePrice st e a) \<longleftrightarrow> e"
      using emergency_phrase_if [of st a] emergency_phrase_only_if [OF name(2), of a]
      by (cases e) auto
    moreover have "sublist afterHoursDisclosure (estimateServicePrice st e a) \<longleftrightarrow> a"
      using afterHours_phrase_if [of st e] afterHours_phrase_only_if [OF name(3), of e]
      by (cases a) auto
    ultimately show ?thesis using pickBasePrice_not_inherited [OF name(1)] by blast
  qed
  have rounded: "mathRound (150 * (3 / 2 * (5 / 4))) = 281" "mathRound (800 * (3 / 2 * (5 / 4))) = 1500"
    by code_simp+
  note classified = typed [OF pickServiceName_classified [of t]]
  from both numbers quoted e_if [of serviceType] a_if [of serviceType] typed [of serviceType]
    pickServiceName_classified [of t] classified heating_both_surcharges rounded
  show ?thesis
    by (intro conjI impI) blast+
qed

theorem estimateServicePrice_surcharges_multiply_witness:
  "pickBasePrice (pickServiceName [''cooling'', ''thermostat'']) = PriceEntry 125 600
   \<and> pickServiceName [''cooling'', ''thermostat''] \<in> set serviceCategories
   \<and> estimatedRange [''cooling'', ''thermostat''] True True = (Some 234, Some 1125)
   \<and> estimatedRange [''cooling'', ''thermostat''] True False = (Some 188, Some 900)
   \<and> sublist emergencyDisclosure (estimateServicePrice [''cooling'', ''thermostat''] True False)
   \<and> \<not> sublist afterHoursDisclosure (estimateServicePrice [''cooling'', ''thermostat''] True False)
   \<and> extractServiceType ''My AC needs a new thermostat'' = [''cooling'', ''thermostat'', ''installation'']
   \<and> \<not> sublist emergencyDisclosure
         (estimateServicePrice (extractServiceType ''My AC needs a new thermostat'') False True)
   \<and> sublist afterHoursDisclosure
         (estimateServicePrice (extractServiceType ''My AC needs a new thermostat'') False True)"
proof -
  have entry: "pickBasePrice (pickServiceName [''cooling'', ''thermostat'']) = PriceEntry 125 600"
    by code_simp
  have typed: "pickServiceName [''cooling'', ''thermostat''] \<in> set serviceCategories"
    by code_simp
  have classified: "extractServiceType ''My AC needs a new thermostat''
      = [''cooling'', ''thermostat'', ''installation'']"
    by code_simp
  have rounded:
    "mathRound (of_int 125 * ((if True then 3 / 2 else 1) * (if False then 5 / 4 else 1))) = 188"
    "mathRound (of_int 600 * ((if True then 3 / 2 else 1) * (if False then 5 / 4 else 1))) = 900"
    "mathRound (of_int 125 * (3 / 2 * (5 / 4))) = 234"
    "mathRound (of_int 600 * (3 / 2 * (5 / 4))) = 1125"
    by code_simp+
  note inst = estimateServicePrice_surcharges_multiply
    [of "[''cooling'', ''thermostat'']" 125 600 True False "''My AC needs a new thermostat''"]
  note inst' = estimateServicePrice_surcharges_multiply
    [of "[''cooling'', ''thermostat'']" 125 600 False True "''My AC needs a new thermostat''"]
  from inst entry have "estimatedRange [''cooling'', ''thermostat''] True False =
          (Some (mathRound (of_int 125 * ((if True then 3 / 2 else 1) * (if False then 5 / 4 else 1)))),
           Some (mathRound (of_int 600 * ((if True then 3 / 2 else 1) * (if False then 5 / 4 else 1)))))"
    "estimatedRange [''cooling'', ''thermostat''] True True =
          (Some (mathRound (of_int 125 * (3 / 2 * (5 / 4)))),
           Some (mathRound (of_int 600 * (3 / 2 * (5 / 4)))))"
    by blast+
  then have r: "estimatedRange [''cooling'', ''thermostat''] True False = (Some 188, Some 900)"
    "estimatedRange [''cooling'', ''thermostat''] True True = (Some 234, Some 1125)"
    by (simp_all only: rounded)
  from inst typed
  have s: "sublist emergencyDisclosure (estimateServicePrice [''cooling'', ''thermostat''] True False)"
    "\<not> sublist afterHoursDisclosure (estimateServicePrice [''cooling'', ''thermostat''] True False)"
    by blast+
  from inst'
  have c: "\<not> sublist emergencyDisclosure
         (estimateServicePrice (extractServiceType ''My AC needs a new thermostat'') False True)"
    "sublist afterHoursDisclosure
         (estimateServicePrice (extractServiceType ''My AC needs a new thermostat'') False True)"
    by blast+
  from entry typed r s classified c show ?thesis by blast
qed

section \<open>Service names without a price entry\<close>

lemma estimateServicePrice_first_element_only:
  "estimatedRange (first # rest) e a = estimatedRange [first] e a
   \<and> estimateServicePrice (first # rest) e a = estimateServicePrice [first] e a"
  by (simp add: estimateServicePrice_def estimatedRange_def pickServiceName_def)

lemma estimatedRange_unlisted_name:
  assumes "map_of basePrices name = None" "name \<notin> set objectPrototypeMembers"
  shows "estimatedRange (name # rest) e a = estimatedRange [''general_hvac''] e a"
proof -
  from assms have "pickBasePrice name = PriceEntry 125 500"
    by (simp add: pickBasePrice_def basePricesGet_def)
  moreover have "pickBasePrice ''general_hvac'' = PriceEntry 125 500"
    by (simp add: pickBasePrice_def basePricesGet_def basePrices_def)
  ultimately show ?thesis
    by (simp add: estimatedRange_def pickServiceName_def)
qed

lemma heat_pump_and_ductwork:
  "''heat_pump'' \<in> set serviceCategories" "map_of basePrices ''heat_pump'' = None"
  "''ductwork'' \<in> set serviceCategories" "map_of basePrices ''ductwork'' = None"
  "estimatedRange [''heat_pump''] False False = (Some 125, Some 500)"
  "estimatedRange [''ductwork''] False False = (Some 125, Some 500)"
  "estimatedRange [''general_hvac''] False False = (Some 125, Some 500)"
  by code_simp+

text \<open>
  C10: for a list with at least one element, the quoted numbers and the whole text are
  those of the list's first element alone. A first element that has no entry in the
  base price table is priced with the \<open>general_hvac\<close> range of 125 to 500, whatever the
  surcharges; this covers every service type, so everything the classifier returns, and
  in particular \<open>heat_pump\<close> and \<open>ductwork\<close>, which the classifier can return and which
  have no entry. The names of the members that the table object inherits from
  \<open>Object.prototype\<close> are no service types and are left out.
\<close>

theorem estimateServicePrice_first_element_and_fallback:
  "estimatedRange (first # rest) e a = estimatedRange [first] e a
   \<and> estimateServicePrice (first # rest) e a = estimateServicePrice [first] e a
   \<and> (map_of basePrices first = None \<and> first \<notin> set objectPrototypeMembers \<longrightarrow>
        estimatedRange (first # rest) e a = estimatedRange [''general_hvac''] e a
        \<and> estimatedRange (first # rest) False False = (Some 125, Some 500))
   \<and> (first \<in> set serviceCategories \<longrightarrow> first \<notin> set objectPrototypeMembers)
   \<and> set (extractServiceType t) \<subseteq> set serviceCategories
   \<and> ''heat_pump'' \<in> set serviceCategories \<and> map_of basePrices ''heat_pump'' = None
   \<and> ''ductwork'' \<in> set serviceCategories \<and> map_of basePrices ''ductwork'' = None
   \<and> estimatedRange [''heat_pump''] False False = (Some 125, Some 500)
   \<and> estimatedRange [''ductwork''] False False = (Some 125, Some 500)"
proof -
  have fallback: "map_of basePrices first = None \<and> first \<notin> set objectPrototypeMembers \<longrightarrow>
        estimatedRange (first # rest) e a = estimatedRange [''general_hvac''] e a
        \<and> estimatedRange (first # rest) False False = (Some 125, Some 500)"
    using estimatedRange_unlisted_name [of first rest e a]
      estimatedRange_unlisted_name [of first rest False False] heat_pump_and_ductwork(7)
    by simp
  have typed: "first \<in> set serviceCategories \<longrightarrow> first \<notin> set objectPrototypeMembers"
    using serviceCategories_facts by blast
  from estimateServicePrice_first_element_only [of first rest e a] fallback typed
    extractServiceType_categories [of t] heat_pump_and_ductwork(1-6)
  show ?thesis by (intro conjI) blast+
qed

theorem estimateServicePrice_first_element_and_fallback_witness:
  "map_of basePrices ''ductwork'' = None
   \<and> ''ductwork'' \<notin> set objectPrototypeMembers
   \<and> extractServiceType ''Please clean the vents and tune-up the system'' = [''ductwork'', ''maintenance'']
   \<and> estimatedRange [''ductwork'', ''maintenance''] True False = estimatedRange [''general_hvac''] True False
   \<and> estimatedRange [''ductwork'', ''maintenance''] False False = (Some 125, Some 500)
   \<and> ''ductwork'' \<in> set serviceCategories"
proof -
  have h: "map_of basePrices ''ductwork'' = None" "''ductwork'' \<notin> set objectPrototypeMembers"
    "''ductwork'' \<in> set serviceCategories"
    by code_simp+
  have c: "extractServiceType ''Please clean the vents and tune-up the system''
      = [''ductwork'', ''maintenance'']"
    by code_simp
  from estimateServicePrice_first_element_and_fallback
    [of "''ductwork''" "[''maintenance'']" True False] h
  have r: "estimatedRange [''ductwork'', ''maintenance''] True False
      = estimatedRange [''general_hvac''] True False"
    "estimatedRange [''ductwork'', ''maintenance''] False False = (Some 125, Some 500)"
    by blast+
  from h c r show ?thesis by blast
qed

subsection \<open>Names that are no service types\<close>

text \<open>
  The only caller passes what \<open>extractServiceType\<close> returns. Called directly with
  another first element, the function copies the name into the text, and for the name
  of a member inherited from \<open>Object.prototype\<close> the property read finds that member,
  which is truthy and has no \<open>min\<close> or \<open>max\<close>, so the fallback is not taken and the
  text quotes \<open>NaN\<close>.
\<close>

lemma direct_call_with_inherited_member_name:
  "map_of basePrices ''constructor'' = None"
  "estimatedRange [''constructor''] False False = (None, None)"
  "estimateServicePrice [''constructor''] False False =
     ''For constructor service, our typical range is $NaN-$NaN. The final price depends on the specific issue and parts needed. We provide upfront pricing before any work begins.''"
  by code_simp+

end
